theory Spec2Isabelle
  imports Main
begin

section \<open>Data model of the game server\<close>

text \<open>
  The server keeps every game as one mutable object. A card is a suit and a rank; a
  card that lies in a trick also carries the seat that played it (the field
  \<open>playerIndex\<close>, absent on the cards of a hand). The suits \<open>'S'\<close>, \<open>'H'\<close>,
  \<open>'D'\<close>, \<open>'C'\<close> of the server are the four constructors of \<open>Suit\<close>, the
  thirteen rank strings \<open>'2'\<close> .. \<open>'A'\<close> those of \<open>Rank\<close>.
\<close>

datatype Suit = Spades | Hearts | Diamonds | Clubs

datatype Rank = Two | Three | Four | Five | Six | Seven | Eight | Nine | Ten
  | Jack | Queen | King | Ace

record Card =
  suit :: Suit
  rank :: Rank
  playerIndex :: "nat option"

record Trick =
  cards :: "Card list"
  winnerIndex :: nat

text \<open>\<open>getCardValue\<close>: the table \<open>rankMap\<close>.\<close>

fun getCardValue :: "Rank \<Rightarrow> nat" where
  "getCardValue Two = 2"
| "getCardValue Three = 3"
| "getCardValue Four = 4"
| "getCardValue Five = 5"
| "getCardValue Six = 6"
| "getCardValue Seven = 7"
| "getCardValue Eight = 8"
| "getCardValue Nine = 9"
| "getCardValue Ten = 10"
| "getCardValue Jack = 11"
| "getCardValue Queen = 12"
| "getCardValue King = 13"
| "getCardValue Ace = 14"

subsection \<open>Trick resolution\<close>

text \<open>
  The body of the loop of \<open>determineTrickWinner\<close>: the card replaces the winning card
  when it is a spade and the winning card is not, or when it has the winning card's
  suit and a higher value.
\<close>

definition trickStep :: "Card \<Rightarrow> Card \<Rightarrow> Card" where
  "trickStep winningCard c =
     (if (suit c = Spades \<and> suit winningCard \<noteq> Spades) \<or>
         (suit c = suit winningCard \<and>
          getCardValue (rank c) > getCardValue (rank winningCard))
      then c else winningCard)"

text \<open>
  The loop starts from \<open>trick[0]\<close> and visits every card of the trick, the first one
  included.
\<close>

definition winningCardOf :: "Card list \<Rightarrow> Card" where
  "winningCardOf trick = foldl trickStep (hd trick) trick"

datatype trick_error = EmptyTrick

text \<open>
  \<open>determineTrickWinner\<close> throws on the empty trick and returns
  \<open>winningCard.playerIndex ?? 0\<close> otherwise.
\<close>

definition determineTrickWinner :: "Card list \<Rightarrow> trick_error + nat" where
  "determineTrickWinner trick =
     (if trick = [] then Inl EmptyTrick
      else Inr (case playerIndex (winningCardOf trick) of None \<Rightarrow> 0 | Some i \<Rightarrow> i))"

subsection \<open>Players, bidding, play and the game object\<close>

text \<open>
  A player of \<open>game.players\<close> or \<open>game.spectators\<close>. The field \<open>id\<close> is
  \<open>player_id\<close> here and \<open>type\<close> is \<open>ptype\<close>; ids are strings.
\<close>

datatype PlayerType = human | bot

record GamePlayer =
  player_id :: string
  username :: string
  avatar :: string
  ptype :: PlayerType
  position :: "int option"

datatype Status = WAITING | BIDDING | PLAYING | COMPLETED

text \<open>
  \<open>game.bidding\<close>: an entry of \<open>bids\<close> is \<open>None\<close> for \<open>null\<close> (no bid yet) and the
  number bid otherwise; 0 is nil and -1 is blind nil. \<open>game.play\<close>: the current
  trick, the completed tricks (\<open>tricks\<close>) and the seat on turn. Both objects carry
  the id of the first player as \<open>currentPlayer\<close> (\<open>playCurrentPlayer\<close> for the
  play); no handler changes it afterwards.
\<close>

record Bidding =
  currentPlayer :: string
  currentBidderIndex :: nat
  bids :: "int option list"

record Play =
  playCurrentPlayer :: string
  currentPlayerIndex :: nat
  currentTrick :: "Card list"
  tricks :: "Trick list"
  trickNumber :: nat

text \<open>
  The fields of \<open>Game\<close> that the handlers read or write. The running totals are
  undefined until the first hand is scored (\<open>None\<close>); \<open>maxPoints\<close>, \<open>minPoints\<close>
  and \<open>buyIn\<close> are copied from the settings when the game is created. The id of
  the game, its mode and rules and the list \<open>completedTricks\<close> of the game object,
  which the handlers below never touch after the creation, are left out.
\<close>

record Game =
  maxPoints :: int
  minPoints :: int
  buyIn :: int
  players :: "GamePlayer option list"
  spectators :: "GamePlayer list"
  status :: Status
  isBotGame :: bool
  dealerIndex :: "nat option"
  hands :: "Card list list option"
  bidding :: "Bidding option"
  play :: "Play option"
  team1TotalScore :: "int option"
  team2TotalScore :: "int option"
  team1Bags :: "int option"
  team2Bags :: "int option"

text \<open>
  What a handler answers: the HTTP error or the socket \<open>error\<close> event of a refused
  request (a handler of the socket that returns without a word is given the error its
  comment names), or the events an accepted request emits to the room
  (\<open>bidding_update\<close>, \<open>play_start\<close>, \<open>trick_complete\<close>, \<open>game_over\<close>, ...).
  Every handler first looks the game up by its id and answers \<open>Game not found\<close>
  when there is none; the functions below are the handlers on the game that was found.
\<close>

datatype error =
    GameAlreadyStarted | GameNotStarted | OnlyHostCanInvite | InvalidSeat
  | SeatNotEmpty | OnlyPartnerCanInvite | PlayerAlreadyJoined | UserNotFound
  | NotEnoughCoins | CoinCheckFailed | SeatTaken | InvalidSeatSelection
  | MissingUserId | AlreadySpectating | AlreadyJoinedAsPlayer
  | OnlyHostCanRemove | InvalidSeatOrNotABot | OnlyPartnerCanRemove | NotAuthorized
  | DebitFailed | NoValidPlayers | InvalidGameState | NoDealerAssigned
  | NoBidding | PlayerNotFound | NotYourTurn | AlreadyBid
  | InvalidHandState | CardNotInHand

record HandSummary =
  team1Score :: int
  team2Score :: int
  hsTeam1Bags :: int
  hsTeam2Bags :: int
  tricksPerPlayer :: "nat list"

datatype event =
    EvGameStarted nat
  | EvBiddingUpdate nat
  | EvBiddingComplete
  | EvPlayStart nat
  | EvTrickComplete Trick nat
  | EvHandCompleted HandSummary
  | EvGameOver int int nat
  | EvPlayUpdate nat

datatype reply = Refused error | Done "event list"

subsection \<open>Array helpers\<close>

text \<open>
  \<open>players[i]\<close>: \<open>null\<close> and an index outside the array are both falsy and both
  answer \<open>undefined\<close> to \<open>?.id\<close>; one \<open>None\<close> stands for the two.
\<close>

definition seatAt :: "GamePlayer option list \<Rightarrow> nat \<Rightarrow> GamePlayer option" where
  "seatAt ps i = (if i < length ps then ps ! i else None)"

text \<open>
  \<open>players[i] !== null\<close> is false only on a seat that is there and \<open>null\<close>.
\<close>

definition isNullSeat :: "GamePlayer option list \<Rightarrow> nat \<Rightarrow> bool" where
  "isNullSeat ps i = (i < length ps \<and> ps ! i = None)"

text \<open>\<open>p && p.id === userId\<close>.\<close>

definition isUser :: "string \<Rightarrow> GamePlayer option \<Rightarrow> bool" where
  "isUser userId p = (case p of None \<Rightarrow> False | Some q \<Rightarrow> player_id q = userId)"

text \<open>\<open>Array.prototype.findIndex\<close>, with \<open>None\<close> for -1.\<close>

fun findIndex :: "('a \<Rightarrow> bool) \<Rightarrow> 'a list \<Rightarrow> nat option" where
  "findIndex P [] = None"
| "findIndex P (x # xs) = (if P x then Some 0 else map_option Suc (findIndex P xs))"

text \<open>\<open>xs.splice(i, 1)\<close>.\<close>

definition splice1 :: "nat \<Rightarrow> 'a list \<Rightarrow> 'a list" where
  "splice1 i xs = take i xs @ drop (Suc i) xs"

text \<open>
  \<open>bids[i] !== null\<close> is false only on an entry that is there and \<open>null\<close>; outside
  the array the read is \<open>undefined\<close>, which is not \<open>null\<close>.
\<close>

definition isNull :: "int option list \<Rightarrow> nat \<Rightarrow> bool" where
  "isNull bs i = (i < length bs \<and> bs ! i = None)"

text \<open>\<open>bids[i] ?? 0\<close> and \<open>bids[i]\<close> compared with a number.\<close>

definition bidAt :: "int option list \<Rightarrow> nat \<Rightarrow> int option" where
  "bidAt bs i = (if i < length bs then bs ! i else None)"

subsection \<open>Seating\<close>

text \<open>
  \<open>POST /\<close>: the creator takes seat 0 of a new game in \<open>WAITING\<close>.
\<close>

definition createGame :: "string \<Rightarrow> string \<Rightarrow> string \<Rightarrow> int \<Rightarrow> int \<Rightarrow> int \<Rightarrow> Game" where
  "createGame creatorId creatorName creatorImage maxP minP buy =
     \<lparr> maxPoints = maxP, minPoints = minP, buyIn = buy,
       players = [Some \<lparr> player_id = creatorId, username = creatorName,
                          avatar = creatorImage, ptype = human, position = None \<rparr>,
                  None, None, None],
       spectators = [], status = WAITING, isBotGame = False, dealerIndex = None,
       hands = None, bidding = None, play = None,
       team1TotalScore = None, team2TotalScore = None,
       team1Bags = None, team2Bags = None \<rparr>"

text \<open>
  The answer of \<open>prisma.user.findUnique\<close> in \<open>POST /:id/join\<close>: the call throws,
  finds no user, or finds one with some coins.
\<close>

datatype lookup = LookupFailed | NoUser | UserCoins int

text \<open>
  \<open>POST /:id/join\<close>. The body carries the user's id, name and avatar and the seat
  asked for (\<open>None\<close> when \<open>seat\<close> is not a number).
\<close>

definition joinGame :: "Game \<Rightarrow> string \<Rightarrow> string \<Rightarrow> string \<Rightarrow> int option \<Rightarrow> lookup \<Rightarrow> reply \<times> Game" where
  "joinGame g playerId uname av requestedSeat user =
     (if list_ex (isUser playerId) (players g) then (Refused PlayerAlreadyJoined, g)
      else (case user of
        LookupFailed \<Rightarrow> (Refused CoinCheckFailed, g)
      | NoUser \<Rightarrow> (Refused UserNotFound, g)
      | UserCoins coins \<Rightarrow>
          (if coins < buyIn g then (Refused NotEnoughCoins, g)
           else (case requestedSeat of
             None \<Rightarrow> (Refused InvalidSeatSelection, g)
           | Some s \<Rightarrow>
               (if 0 \<le> s \<and> s < 4 then
                  (if \<not> isNullSeat (players g) (nat s) then (Refused SeatTaken, g)
                   else (Done [],
                         g\<lparr>players := (players g)[nat s :=
                             Some \<lparr> player_id = playerId, username = uname, avatar = av,
                                    ptype = human, position = Some s \<rparr>]\<rparr>))
                else (Refused InvalidSeatSelection, g))))))"

text \<open>
  The bot that the two invitations seat; \<open>uuid\<close> is the fresh identifier drawn by
  \<open>uuidv4()\<close>. Its name is \<open>Bot\<close> and the seat number plus one, one digit for the
  seats 0 to 3, the only ones a bot is seated at.
\<close>

definition botPlayer :: "string \<Rightarrow> int \<Rightarrow> GamePlayer" where
  "botPlayer uuid seatIndex =
     \<lparr> player_id = ''bot-'' @ uuid,
       username = ''Bot '' @ [char_of (48 + seatIndex + 1)],
       avatar = ''/bot-avatar.jpg'', ptype = bot, position = Some seatIndex \<rparr>"

text \<open>\<open>game.players.some(p => p && p.type === 'bot')\<close>.\<close>

definition anyBot :: "GamePlayer option list \<Rightarrow> bool" where
  "anyBot ps = list_ex (\<lambda>p. case p of None \<Rightarrow> False | Some q \<Rightarrow> ptype q = bot) ps"

text \<open>
  \<open>POST /:id/invite-bot\<close> (host only, before the game). \<open>requesterId\<close> is \<open>None\<close>
  when the body names no requester: \<open>game.players[0]?.id !== requesterId\<close> compares
  the host's id, \<open>undefined\<close> on an empty seat 0, with it. The permission check comes
  first, the check of the seat second.
\<close>

definition inviteBot :: "Game \<Rightarrow> int \<Rightarrow> string option \<Rightarrow> string \<Rightarrow> reply \<times> Game" where
  "inviteBot g seatIndex requesterId uuid =
     (if status g \<noteq> WAITING then (Refused GameAlreadyStarted, g)
      else if map_option player_id (seatAt (players g) 0) \<noteq> requesterId
        then (Refused OnlyHostCanInvite, g)
      else if seatIndex < 0 \<or> seatIndex > 3 \<or> seatAt (players g) (nat seatIndex) \<noteq> None
        then (Refused InvalidSeat, g)
      else let ps = (players g)[nat seatIndex := Some (botPlayer uuid seatIndex)]
           in (Done [], g\<lparr>players := ps, isBotGame := anyBot ps\<rparr>))"

text \<open>
  \<open>POST /:id/invite-bot-midgame\<close> (partner only, once the game has left
  \<open>WAITING\<close>). Here the check of the seat comes first, the permission check second.
\<close>

definition inviteBotMidgame :: "Game \<Rightarrow> int \<Rightarrow> string option \<Rightarrow> string \<Rightarrow> reply \<times> Game" where
  "inviteBotMidgame g seatIndex requesterId uuid =
     (if status g = WAITING then (Refused GameNotStarted, g)
      else if seatIndex < 0 \<or> seatIndex > 3 \<or> seatAt (players g) (nat seatIndex) \<noteq> None
        then (Refused SeatNotEmpty, g)
      else let partnerSeat = nat ((seatIndex + 2) mod 4) in
        (case seatAt (players g) partnerSeat of
           None \<Rightarrow> (Refused OnlyPartnerCanInvite, g)
         | Some p \<Rightarrow>
             (if Some (player_id p) \<noteq> requesterId then (Refused OnlyPartnerCanInvite, g)
              else (Done [],
                    g\<lparr>players := (players g)[nat seatIndex := Some (botPlayer uuid seatIndex)]\<rparr>))))"

text \<open>
  \<open>POST /:id/spectate\<close>: \<open>userId\<close> is \<open>None\<close> when the body has no id, and the
  empty string is as falsy as no id.
\<close>

definition spectate :: "Game \<Rightarrow> string option \<Rightarrow> string \<Rightarrow> string \<Rightarrow> reply \<times> Game" where
  "spectate g userId uname av =
     (case userId of
        None \<Rightarrow> (Refused MissingUserId, g)
      | Some u \<Rightarrow>
          (if u = [] then (Refused MissingUserId, g)
           else if list_ex (\<lambda>s. player_id s = u) (spectators g)
             then (Refused AlreadySpectating, g)
           else if list_ex (isUser u) (players g) then (Refused AlreadyJoinedAsPlayer, g)
           else (Done [],
                 g\<lparr>spectators := spectators g @
                     [\<lparr> player_id = u, username = uname, avatar = av,
                        ptype = human, position = None \<rparr>]\<rparr>)))"

text \<open>\<open>POST /:id/leave\<close>: the user leaves the seats and the spectators.\<close>

definition leave :: "Game \<Rightarrow> string \<Rightarrow> reply \<times> Game" where
  "leave g userId =
     (let g1 = (case findIndex (isUser userId) (players g) of
                  None \<Rightarrow> g
                | Some i \<Rightarrow> g\<lparr>players := (players g)[i := None]\<rparr>);
          g2 = (case findIndex (\<lambda>s. player_id s = userId) (spectators g1) of
                  None \<Rightarrow> g1
                | Some i \<Rightarrow> g1\<lparr>spectators := splice1 i (spectators g1)\<rparr>)
      in (Done [], g2))"

text \<open>
  The socket event \<open>leave_game\<close>, for an authenticated socket of the user or not:
  the user leaves the seat. (When no human is seated any more the game is then taken
  off the list of games, and no request reaches it again.)
\<close>

definition leaveGame :: "Game \<Rightarrow> string \<Rightarrow> bool \<Rightarrow> reply \<times> Game" where
  "leaveGame g userId authorized =
     (if \<not> authorized then (Refused NotAuthorized, g)
      else (case findIndex (isUser userId) (players g) of
              None \<Rightarrow> (Done [], g)
            | Some i \<Rightarrow> (Done [], g\<lparr>players := (players g)[i := None]\<rparr>)))"

text \<open>\<open>game.players[seatIndex]\<close> is there and is a bot.\<close>

definition isBotAt :: "GamePlayer option list \<Rightarrow> int \<Rightarrow> bool" where
  "isBotAt ps seatIndex =
     (case seatAt ps (nat seatIndex) of None \<Rightarrow> False | Some q \<Rightarrow> ptype q = bot)"

text \<open>\<open>POST /:id/remove-bot\<close> and \<open>POST /:id/remove-bot-midgame\<close>.\<close>

definition removeBot :: "Game \<Rightarrow> int \<Rightarrow> string option \<Rightarrow> reply \<times> Game" where
  "removeBot g seatIndex requesterId =
     (if status g \<noteq> WAITING then (Refused GameAlreadyStarted, g)
      else if map_option player_id (seatAt (players g) 0) \<noteq> requesterId
        then (Refused OnlyHostCanRemove, g)
      else if seatIndex < 0 \<or> seatIndex > 3 \<or> \<not> isBotAt (players g) seatIndex
        then (Refused InvalidSeatOrNotABot, g)
      else (Done [], g\<lparr>players := (players g)[nat seatIndex := None]\<rparr>))"

definition removeBotMidgame :: "Game \<Rightarrow> int \<Rightarrow> string option \<Rightarrow> reply \<times> Game" where
  "removeBotMidgame g seatIndex requesterId =
     (if status g = WAITING then (Refused GameNotStarted, g)
      else if seatIndex < 0 \<or> seatIndex > 3 \<or> \<not> isBotAt (players g) seatIndex
        then (Refused InvalidSeatOrNotABot, g)
      else let partnerSeat = nat ((seatIndex + 2) mod 4) in
        (case seatAt (players g) partnerSeat of
           None \<Rightarrow> (Refused OnlyPartnerCanRemove, g)
         | Some p \<Rightarrow>
             (if Some (player_id p) \<noteq> requesterId then (Refused OnlyPartnerCanRemove, g)
              else (Done [], g\<lparr>players := (players g)[nat seatIndex := None]\<rparr>))))"

subsection \<open>Dealing and starting the game\<close>

definition SUITS :: "Suit list" where
  "SUITS = [Spades, Hearts, Diamonds, Clubs]"

definition RANKS :: "Rank list" where
  "RANKS = [Two, Three, Four, Five, Six, Seven, Eight, Nine, Ten, Jack, Queen, King, Ace]"

definition createDeck :: "Card list" where
  "createDeck =
     concat (map (\<lambda>s. map (\<lambda>r. \<lparr> suit = s, rank = r, playerIndex = None \<rparr>) RANKS) SUITS)"

text \<open>
  \<open>shuffle\<close>: for \<open>i\<close> from the last index down to 1, swap \<open>deck[i]\<close> with
  \<open>deck[j]\<close>, \<open>j = Math.floor(Math.random() * (i + 1))\<close>. The random draws are the
  stream \<open>rnd\<close>, one number per \<open>i\<close>, reduced into \<open>0 .. i\<close>.
\<close>

definition swap :: "nat \<Rightarrow> nat \<Rightarrow> 'a list \<Rightarrow> 'a list" where
  "swap i j xs = xs[i := xs ! j, j := xs ! i]"

fun shuffleFrom :: "(nat \<Rightarrow> nat) \<Rightarrow> nat \<Rightarrow> Card list \<Rightarrow> Card list" where
  "shuffleFrom rnd 0 deck = deck"
| "shuffleFrom rnd (Suc i) deck =
     shuffleFrom rnd i (swap (Suc i) (rnd (Suc i) mod (Suc i + 1)) deck)"

definition shuffle :: "(nat \<Rightarrow> nat) \<Rightarrow> Card list \<Rightarrow> Card list" where
  "shuffle rnd deck = shuffleFrom rnd (length deck - 1) deck"

text \<open>
  \<open>assignDealer\<close>: the seat after the previous dealer when it is taken, else the
  first taken seat; with no previous dealer a random taken seat (\<open>r\<close> is the draw).
  It throws when no seat is taken.
\<close>

definition playerIndexes :: "GamePlayer option list \<Rightarrow> nat list" where
  "playerIndexes ps = filter (\<lambda>i. ps ! i \<noteq> None) [0 ..< length ps]"

definition assignDealer :: "GamePlayer option list \<Rightarrow> nat option \<Rightarrow> nat \<Rightarrow> nat option" where
  "assignDealer ps previousDealerIndex r =
     (if playerIndexes ps = [] then None
      else (case previousDealerIndex of
              Some prev \<Rightarrow>
                (let nextDealerIndex = (prev + 1) mod 4 in
                 if nextDealerIndex \<in> set (playerIndexes ps) then Some nextDealerIndex
                 else Some (hd (playerIndexes ps)))
            | None \<Rightarrow> Some (playerIndexes ps ! (r mod length (playerIndexes ps)))))"

text \<open>
  \<open>dealCards\<close>: the cards of the deck go round the four hands, one at a time, from
  the seat after the dealer.
\<close>

fun dealLoop :: "Card list \<Rightarrow> nat \<Rightarrow> Card list list \<Rightarrow> Card list list" where
  "dealLoop [] current hs = hs"
| "dealLoop (c # deck) current hs =
     dealLoop deck ((current + 1) mod 4) (hs[current := hs ! current @ [c]])"

definition dealCards :: "(nat \<Rightarrow> nat) \<Rightarrow> nat \<Rightarrow> Card list list" where
  "dealCards rnd dealer =
     dealLoop (shuffle rnd createDeck) ((dealer + 1) mod 4) [[], [], [], []]"

text \<open>
  \<open>POST /:id/start\<close>. \<open>debitOk\<close> says whether the buy-in could be taken from every
  human player (the database may throw), \<open>r\<close> and \<open>rnd\<close> are the random draws of the
  dealer and of the shuffle. The status is already \<open>BIDDING\<close> when \<open>assignDealer\<close>
  throws, and the hands are already dealt when the first bidder's seat turns out empty.
\<close>

definition startGame :: "Game \<Rightarrow> bool \<Rightarrow> nat \<Rightarrow> (nat \<Rightarrow> nat) \<Rightarrow> reply \<times> Game" where
  "startGame g debitOk r rnd =
     (if status g \<noteq> WAITING then (Refused GameAlreadyStarted, g)
      else let g1 = g\<lparr>isBotGame := anyBot (players g)\<rparr> in
        if \<not> isBotGame g1 \<and> \<not> debitOk then (Refused DebitFailed, g1)
        else let g2 = g1\<lparr>status := BIDDING\<rparr> in
          (case assignDealer (players g2) (dealerIndex g2) r of
             None \<Rightarrow> (Refused NoValidPlayers, g2)
           | Some dealer \<Rightarrow>
               (let g3 = g2\<lparr>dealerIndex := Some dealer, hands := Some (dealCards rnd dealer)\<rparr> in
                case seatAt (players g3) ((dealer + 1) mod 4) of
                  None \<Rightarrow> (Refused InvalidGameState, g3)
                | Some firstBidder \<Rightarrow>
                    (Done [EvGameStarted dealer],
                     g3\<lparr>bidding := Some \<lparr> currentPlayer = player_id firstBidder,
                                           currentBidderIndex = (dealer + 1) mod 4,
                                           bids = [None, None, None, None] \<rparr>\<rparr>))))"

subsection \<open>Bidding\<close>

text \<open>
  The loop of \<open>make_bid\<close> that looks for the next seat without a bid:
  \<open>while (bids[next] !== null && next !== playerIndex) next = (next + 1) % 4\<close>.
  Not returning is the value \<open>None\<close>.
\<close>

partial_function (option) nextBidder :: "int option list \<Rightarrow> nat \<Rightarrow> nat \<Rightarrow> nat option" where
  "nextBidder bs idx next =
     (if \<not> isNull bs next \<and> next \<noteq> idx then nextBidder bs idx ((next + 1) mod 4)
      else Some next)"

text \<open>\<open>!game.dealerIndex\<close>: true on no dealer, and on the dealer 0 as well.\<close>

definition noDealer :: "nat option \<Rightarrow> bool" where
  "noDealer d = (case d of None \<Rightarrow> True | Some i \<Rightarrow> i = 0)"

text \<open>
  The socket event \<open>make_bid\<close>. The bid is stored before the test for the end of the
  bidding, so the two refusals of that branch keep the bid.
\<close>

definition makeBid :: "Game \<Rightarrow> string \<Rightarrow> int \<Rightarrow> (reply \<times> Game) option" where
  "makeBid g userId bid =
     (case bidding g of
        None \<Rightarrow> Some (Refused NoBidding, g)
      | Some bd \<Rightarrow>
         (case findIndex (isUser userId) (players g) of
            None \<Rightarrow> Some (Refused PlayerNotFound, g)
          | Some idx \<Rightarrow>
             (if idx \<noteq> currentBidderIndex bd then Some (Refused NotYourTurn, g)
              else if \<not> isNull (bids bd) idx then Some (Refused AlreadyBid, g)
              else
                (let bs = (bids bd)[idx := Some bid];
                     g1 = g\<lparr>bidding := Some (bd\<lparr>bids := bs\<rparr>)\<rparr> in
                 case nextBidder bs idx ((idx + 1) mod 4) of
                   None \<Rightarrow> None
                 | Some next \<Rightarrow>
                    (if list_all (\<lambda>b. b \<noteq> None) bs then
                       (if noDealer (dealerIndex g1) then Some (Refused NoDealerAssigned, g1)
                        else
                          (let leader = (the (dealerIndex g1) + 1) mod 4 in
                           case seatAt (players g1) leader of
                             None \<Rightarrow> Some (Refused InvalidGameState, g1)
                           | Some firstPlayer \<Rightarrow>
                               Some (Done [EvBiddingComplete, EvPlayStart leader],
                                     g1\<lparr>play := Some \<lparr> playCurrentPlayer = player_id firstPlayer,
                                                         currentPlayerIndex = leader,
                                                         currentTrick = [],
                                                         tricks = [],
                                                         trickNumber = 0 \<rparr>\<rparr>)))
                     else Some (Done [EvBiddingUpdate next],
                                g\<lparr>bidding := Some (bd\<lparr>bids := bs, currentBidderIndex := next\<rparr>)\<rparr>))))))"

subsection \<open>Scoring a hand\<close>

text \<open>
  \<open>tricksPerPlayer\<close>: one count per seat, raised at the winner of every trick.
\<close>

definition countTricks :: "Trick list \<Rightarrow> nat list" where
  "countTricks ts =
     foldl (\<lambda>tp t. tp[winnerIndex t := tp ! winnerIndex t + 1]) [0, 0, 0, 0] ts"

text \<open>\<open>bids[i] ?? 0\<close>, summed over the seats of a team.\<close>

definition bidOr0 :: "int option list \<Rightarrow> nat \<Rightarrow> int" where
  "bidOr0 bs i = (case bidAt bs i of None \<Rightarrow> 0 | Some b \<Rightarrow> b)"

definition teamBid :: "int option list \<Rightarrow> nat list \<Rightarrow> int" where
  "teamBid bs team = sum_list (map (bidOr0 bs) team)"

definition teamTricks :: "nat list \<Rightarrow> nat list \<Rightarrow> int" where
  "teamTricks tp team = sum_list (map (\<lambda>i. int (tp ! i)) team)"

text \<open>The contract of one team: its score and its bags.\<close>

definition contract :: "int \<Rightarrow> int \<Rightarrow> int \<times> int" where
  "contract tBid tTricks =
     (if tTricks \<ge> tBid then (tBid * 10 + (tTricks - tBid), tTricks - tBid)
      else (- (tBid * 10), 0))"

text \<open>
  One round of the loop over the nil and blind nil bids, for the seat \<open>i\<close>; team 1 is
  the seats 0 and 2.
\<close>

definition nilStep :: "int option list \<Rightarrow> HandSummary \<Rightarrow> nat \<Rightarrow> HandSummary" where
  "nilStep bs h i =
     (let b = bidAt bs i; n = int (tricksPerPlayer h ! i); inTeam1 = (i \<in> set [0, 2]) in
      if b = Some 0 then
        (if n = 0 then
           (if inTeam1 then h\<lparr>team1Score := team1Score h + 100\<rparr>
            else h\<lparr>team2Score := team2Score h + 100\<rparr>)
         else
           (if inTeam1 then h\<lparr>team1Score := team1Score h - 100, hsTeam1Bags := hsTeam1Bags h + n\<rparr>
            else h\<lparr>team2Score := team2Score h - 100, hsTeam2Bags := hsTeam2Bags h + n\<rparr>))
      else if b = Some (- 1) then
        (if n = 0 then
           (if inTeam1 then h\<lparr>team1Score := team1Score h + 200\<rparr>
            else h\<lparr>team2Score := team2Score h + 200\<rparr>)
         else
           (if inTeam1 then h\<lparr>team1Score := team1Score h - 200, hsTeam1Bags := hsTeam1Bags h + n\<rparr>
            else h\<lparr>team2Score := team2Score h - 200, hsTeam2Bags := hsTeam2Bags h + n\<rparr>))
      else h)"

text \<open>The hand's summary before the bag penalty: the two contracts, then the nils.\<close>

definition scoreBeforePenalty :: "int option list \<Rightarrow> Trick list \<Rightarrow> HandSummary" where
  "scoreBeforePenalty bs ts =
     (let tp = countTricks ts;
          c1 = contract (teamBid bs [0, 2]) (teamTricks tp [0, 2]);
          c2 = contract (teamBid bs [1, 3]) (teamTricks tp [1, 3])
      in foldl (nilStep bs)
           \<lparr> team1Score = fst c1, team2Score = fst c2,
             hsTeam1Bags = snd c1, hsTeam2Bags = snd c2, tricksPerPlayer = tp \<rparr>
           [0, 2, 1, 3])"

text \<open>The bag penalty at the end of \<open>calculatePartnersHandScore\<close>.\<close>

definition bagPenalty :: "HandSummary \<Rightarrow> HandSummary" where
  "bagPenalty h =
     (let h1 = (if hsTeam1Bags h \<ge> 10
                then h\<lparr>team1Score := team1Score h - 100, hsTeam1Bags := hsTeam1Bags h - 10\<rparr>
                else h)
      in if hsTeam2Bags h1 \<ge> 10
         then h1\<lparr>team2Score := team2Score h1 - 100, hsTeam2Bags := hsTeam2Bags h1 - 10\<rparr>
         else h1)"

text \<open>\<open>calculatePartnersHandScore\<close>; it throws (\<open>None\<close>) without bidding or play.\<close>

definition calculatePartnersHandScore :: "Game \<Rightarrow> HandSummary option" where
  "calculatePartnersHandScore g =
     (case (bidding g, play g) of
        (Some bd, Some pl) \<Rightarrow> Some (bagPenalty (scoreBeforePenalty (bids bd) (tricks pl)))
      | _ \<Rightarrow> None)"

subsection \<open>Playing a card\<close>

text \<open>\<open>game.team1TotalScore || 0\<close>.\<close>

definition orZero :: "int option \<Rightarrow> int" where
  "orZero v = (case v of None \<Rightarrow> 0 | Some n \<Rightarrow> n)"

text \<open>
  The game over check of \<open>play_card\<close>, on the running totals just updated; the stats
  update it starts in the database is not part of the game object.
\<close>

definition gameOverCheck :: "Game \<Rightarrow> event list \<Rightarrow> reply \<times> Game" where
  "gameOverCheck g evs =
     (let winThreshold = 500; lossThreshold = - 150;
          t1 = orZero (team1TotalScore g); t2 = orZero (team2TotalScore g) in
      if t1 \<ge> winThreshold \<or> t2 \<ge> winThreshold \<or> t1 \<le> lossThreshold \<or> t2 \<le> lossThreshold
      then (Done (evs @ [EvGameOver t1 t2 (if t1 > t2 then 1 else 2)]), g\<lparr>status := COMPLETED\<rparr>)
      else (Done evs, g))"

text \<open>The branch of \<open>play_card\<close> taken when the thirteenth trick is resolved.\<close>

definition completeHand :: "Game \<Rightarrow> event list \<Rightarrow> reply \<times> Game" where
  "completeHand g evs =
     (case calculatePartnersHandScore g of
        None \<Rightarrow> (Refused InvalidGameState, g)
      | Some handSummary \<Rightarrow>
          gameOverCheck
            (g\<lparr>team1TotalScore := Some (orZero (team1TotalScore g) + team1Score handSummary),
               team2TotalScore := Some (orZero (team2TotalScore g) + team2Score handSummary),
               team1Bags := Some (orZero (team1Bags g) + hsTeam1Bags handSummary),
               team2Bags := Some (orZero (team2Bags g) + hsTeam2Bags handSummary)\<rparr>)
            (evs @ [EvHandCompleted handSummary]))"

text \<open>
  The branch of \<open>play_card\<close> taken when the trick has four cards: the trick is
  resolved and stored, the winner is put on turn, and then either the hand is scored
  (thirteen tricks) or the turn is advanced once more.
\<close>

definition resolveTrick :: "Game \<Rightarrow> Play \<Rightarrow> Card list \<Rightarrow> reply \<times> Game" where
  "resolveTrick g pl trick =
     (case determineTrickWinner trick of
        Inl e \<Rightarrow> (Refused InvalidGameState, g)
      | Inr w \<Rightarrow>
          (let t = \<lparr> cards = trick, winnerIndex = w \<rparr>;
               pl1 = pl\<lparr>tricks := tricks pl @ [t], currentTrick := [],
                        trickNumber := trickNumber pl + 1, currentPlayerIndex := w\<rparr>
           in if trickNumber pl1 = 13
              then completeHand (g\<lparr>play := Some pl1\<rparr>) [EvTrickComplete t (trickNumber pl1)]
              else
                (let pl2 = pl1\<lparr>currentPlayerIndex := (currentPlayerIndex pl1 + 1) mod 4\<rparr>
                 in (Done [EvTrickComplete t (trickNumber pl1),
                           EvPlayUpdate (currentPlayerIndex pl2)],
                     g\<lparr>play := Some pl2\<rparr>))))"

text \<open>
  The socket event \<open>play_card\<close>. The card of the request is looked up in the hand by
  suit and rank, taken out of the hand and put on the trick with the seat that played
  it.
\<close>

definition playCard :: "Game \<Rightarrow> string \<Rightarrow> Card \<Rightarrow> reply \<times> Game" where
  "playCard g userId c =
     (case (play g, hands g, bidding g) of
        (Some pl, Some hs, Some bd) \<Rightarrow>
          (case findIndex (isUser userId) (players g) of
             None \<Rightarrow> (Refused PlayerNotFound, g)
           | Some idx \<Rightarrow>
               (if idx \<noteq> currentPlayerIndex pl then (Refused NotYourTurn, g)
                else if idx \<ge> length hs then (Refused InvalidHandState, g)
                else
                  (case findIndex (\<lambda>h. suit h = suit c \<and> rank h = rank c) (hs ! idx) of
                     None \<Rightarrow> (Refused CardNotInHand, g)
                   | Some cardIndex \<Rightarrow>
                       (let g1 = g\<lparr>hands := Some (hs[idx := splice1 cardIndex (hs ! idx)])\<rparr>;
                            trick = currentTrick pl @ [c\<lparr>playerIndex := Some idx\<rparr>]
                        in if length trick = 4 then resolveTrick g1 pl trick
                           else
                             (let pl1 = pl\<lparr>currentTrick := trick,
                                   currentPlayerIndex := (currentPlayerIndex pl + 1) mod 4\<rparr>
                              in (Done [EvPlayUpdate (currentPlayerIndex pl1)],
                                  g1\<lparr>play := Some pl1\<rparr>))))))
      | _ \<Rightarrow> (Refused InvalidGameState, g))"

section \<open>Example inputs\<close>

text \<open>The seat a card of a trick stands for: \<open>card.playerIndex ?? 0\<close>.\<close>

definition seatOf :: "Card \<Rightarrow> nat" where
  "seatOf c = (case playerIndex c of None \<Rightarrow> 0 | Some i \<Rightarrow> i)"

text \<open>
  The two tricks of the specification: the four of clubs led by seat 0, then the nine
  of clubs, the king of spades and the two of clubs; and the ten of diamonds led by
  seat 3, then the three, the jack and the two of diamonds.
\<close>

definition exampleClubTrick :: "Card list" where
  "exampleClubTrick =
     [\<lparr> suit = Clubs, rank = Four, playerIndex = Some 0 \<rparr>,
      \<lparr> suit = Clubs, rank = Nine, playerIndex = Some 1 \<rparr>,
      \<lparr> suit = Spades, rank = King, playerIndex = Some 2 \<rparr>,
      \<lparr> suit = Clubs, rank = Two, playerIndex = Some 3 \<rparr>]"

definition exampleDiamondTrick :: "Card list" where
  "exampleDiamondTrick =
     [\<lparr> suit = Diamonds, rank = Ten, playerIndex = Some 3 \<rparr>,
      \<lparr> suit = Diamonds, rank = Three, playerIndex = Some 0 \<rparr>,
      \<lparr> suit = Diamonds, rank = Jack, playerIndex = Some 1 \<rparr>,
      \<lparr> suit = Diamonds, rank = Two, playerIndex = Some 2 \<rparr>]"

text \<open>The ids of the seated players, seat by seat.\<close>

definition seatedIds :: "GamePlayer option list \<Rightarrow> string list" where
  "seatedIds ps = concat (map (\<lambda>p. case p of None \<Rightarrow> [] | Some q \<Rightarrow> [player_id q]) ps)"

text \<open>A request is accepted when the handler does not answer with an error.\<close>

definition accepted :: "reply \<times> Game \<Rightarrow> bool" where
  "accepted r = (case fst r of Done evs \<Rightarrow> True | Refused e \<Rightarrow> False)"

text \<open>
  A lobby that Alice has just created (500 and -150 points, buy-in 100), and a full
  table from which the hand-written states below are made.
\<close>

definition exampleLobby :: Game where
  "exampleLobby = createGame ''alice'' ''Alice'' ''/alice.png'' 500 (- 150) 100"

definition seated :: "string \<Rightarrow> int \<Rightarrow> GamePlayer option" where
  "seated u s = Some \<lparr> player_id = u, username = u, avatar = ''/default-pfp.jpg'',
                       ptype = human, position = Some s \<rparr>"

definition exampleFullTable :: Game where
  "exampleFullTable =
     exampleLobby\<lparr>players := [seated ''alice'' 0, seated ''bob'' 1,
                               seated ''carol'' 2, seated ''dave'' 3],
                   status := BIDDING\<rparr>"

text \<open>
  A deal in which every seat holds one whole suit: Alice (seat 0) the spades, Bob the
  hearts, Carol the diamonds, Dave the clubs.
\<close>

definition mkCard :: "Suit \<Rightarrow> Rank \<Rightarrow> Card" where
  "mkCard s r = \<lparr> suit = s, rank = r, playerIndex = None \<rparr>"

definition played :: "Suit \<Rightarrow> Rank \<Rightarrow> nat \<Rightarrow> Card" where
  "played s r i = \<lparr> suit = s, rank = r, playerIndex = Some i \<rparr>"

definition suitHand :: "Suit \<Rightarrow> Card list" where
  "suitHand s = map (mkCard s) RANKS"

definition exampleHands :: "Card list list" where
  "exampleHands = [suitHand Spades, suitHand Hearts, suitHand Diamonds, suitHand Clubs]"

text \<open>
  The bidding of that deal with the dealer at seat 0: Bob, Carol and Dave have bid,
  Alice bids last.
\<close>

definition exampleLastBid :: Game where
  "exampleLastBid =
     exampleFullTable\<lparr>status := BIDDING, dealerIndex := Some 0,
       hands := Some exampleHands,
       bidding := Some \<lparr> currentPlayer = ''bob'', currentBidderIndex = 0,
                         bids = [None, Some 3, Some 4, Some 2] \<rparr>\<rparr>"

text \<open>
  The same deal with the dealer at seat 3: Alice, Bob and Carol have bid 6, 1 and 4,
  Dave bids last; and the game once Dave has bid 1, with Alice to lead.
\<close>

definition exampleTable :: Game where
  "exampleTable =
     exampleFullTable\<lparr>status := BIDDING, dealerIndex := Some 3,
       hands := Some exampleHands,
       bidding := Some \<lparr> currentPlayer = ''alice'', currentBidderIndex = 3,
                         bids = [Some 6, Some 1, Some 4, None] \<rparr>\<rparr>"

definition examplePlayStart :: Game where
  "examplePlayStart =
     exampleTable\<lparr>
       bidding := Some \<lparr> currentPlayer = ''alice'', currentBidderIndex = 3,
                         bids = [Some 6, Some 1, Some 4, Some 1] \<rparr>,
       play := Some \<lparr> playCurrentPlayer = ''alice'', currentPlayerIndex = 0,
                      currentTrick = [], tricks = [], trickNumber = 0 \<rparr>\<rparr>"

text \<open>
  The first trick after three cards (Alice led the two of spades, Bob and Carol threw
  their twos), Dave to play.
\<close>

definition exampleThreePlayed :: Game where
  "exampleThreePlayed =
     examplePlayStart\<lparr>
       hands := Some [tl (suitHand Spades), tl (suitHand Hearts),
                      tl (suitHand Diamonds), suitHand Clubs],
       play := Some \<lparr> playCurrentPlayer = ''alice'', currentPlayerIndex = 3,
                      currentTrick = [played Spades Two 0, played Hearts Two 1,
                                      played Diamonds Two 2],
                      tricks = [], trickNumber = 0 \<rparr>\<rparr>"

text \<open>
  The last trick of that hand. Alice's spade has won every trick; the server put the
  seat after her on turn each time, so Bob led the tricks 2 to 13. Twelve tricks are
  complete, Bob, Carol and Dave have played their aces, Alice holds the ace of spades.
\<close>

definition exampleTricks :: "Trick list" where
  "exampleTricks =
     \<lparr> cards = [played Spades Two 0, played Hearts Two 1,
                played Diamonds Two 2, played Clubs Two 3], winnerIndex = 0 \<rparr> #
     map (\<lambda>r. \<lparr> cards = [played Hearts r 1, played Diamonds r 2,
                           played Clubs r 3, played Spades r 0], winnerIndex = 0 \<rparr>)
         [Three, Four, Five, Six, Seven, Eight, Nine, Ten, Jack, Queen, King]"

definition exampleLastTrick :: Game where
  "exampleLastTrick =
     examplePlayStart\<lparr>
       hands := Some [[mkCard Spades Ace], [], [], []],
       play := Some \<lparr> playCurrentPlayer = ''alice'', currentPlayerIndex = 0,
                      currentTrick = [played Hearts Ace 1, played Diamonds Ace 2,
                                      played Clubs Ace 3],
                      tricks = exampleTricks, trickNumber = 12 \<rparr>\<rparr>"

subsection \<open>The requests of a game and the states they reach\<close>

text \<open>
  One constructor per handler, with what the request carries and what the handler
  draws from outside (the database answer, the fresh \<open>uuid\<close>, the random numbers).
\<close>

datatype request =
    ReqJoin string string string "int option" lookup
  | ReqInviteBot int "string option" string
  | ReqInviteBotMidgame int "string option" string
  | ReqSpectate "string option" string string
  | ReqLeave string
  | ReqLeaveGame string bool
  | ReqRemoveBot int "string option"
  | ReqRemoveBotMidgame int "string option"
  | ReqStart bool nat "nat \<Rightarrow> nat"
  | ReqMakeBid string int
  | ReqPlayCard string Card

fun handle :: "Game \<Rightarrow> request \<Rightarrow> (reply \<times> Game) option" where
  "handle g (ReqJoin playerId uname av requestedSeat user) =
     Some (joinGame g playerId uname av requestedSeat user)"
| "handle g (ReqInviteBot seatIndex requesterId uuid) =
     Some (inviteBot g seatIndex requesterId uuid)"
| "handle g (ReqInviteBotMidgame seatIndex requesterId uuid) =
     Some (inviteBotMidgame g seatIndex requesterId uuid)"
| "handle g (ReqSpectate userId uname av) = Some (spectate g userId uname av)"
| "handle g (ReqLeave userId) = Some (leave g userId)"
| "handle g (ReqLeaveGame userId authorized) = Some (leaveGame g userId authorized)"
| "handle g (ReqRemoveBot seatIndex requesterId) = Some (removeBot g seatIndex requesterId)"
| "handle g (ReqRemoveBotMidgame seatIndex requesterId) =
     Some (removeBotMidgame g seatIndex requesterId)"
| "handle g (ReqStart debitOk r rnd) = Some (startGame g debitOk r rnd)"
| "handle g (ReqMakeBid userId bid) = makeBid g userId bid"
| "handle g (ReqPlayCard userId c) = Some (playCard g userId c)"

text \<open>
  The states of a game: the one its creation makes, and every state a handler leaves
  behind, whether it accepted the request or refused it.
\<close>

inductive reachable :: "Game \<Rightarrow> bool" where
  created: "reachable (createGame creatorId creatorName creatorImage maxP minP buy)"
| handled: "reachable g \<Longrightarrow> handle g rq = Some (rep, g') \<Longrightarrow> reachable g'"

text \<open>
  The cards of a game: those in the four hands, four for every completed trick, and
  those of the current trick.
\<close>

definition cardsInHands :: "Game \<Rightarrow> nat" where
  "cardsInHands g = (case hands g of None \<Rightarrow> 0 | Some hs \<Rightarrow> sum_list (map length hs))"

definition cardsInPlay :: "Game \<Rightarrow> nat" where
  "cardsInPlay g =
     (case play g of None \<Rightarrow> 0
      | Some pl \<Rightarrow> 4 * length (tricks pl) + length (currentTrick pl))"

definition cardCount :: "Game \<Rightarrow> nat" where
  "cardCount g = cardsInHands g + cardsInPlay g"

text \<open>What the handlers keep true of a game, used to prove the conservation.\<close>

definition allBid :: "Game \<Rightarrow> bool" where
  "allBid g = (case bidding g of None \<Rightarrow> False
               | Some bd \<Rightarrow> list_all (\<lambda>b. b \<noteq> None) (bids bd))"

definition handInv :: "Game \<Rightarrow> bool" where
  "handInv g =
     ((status g = WAITING \<longrightarrow> hands g = None \<and> bidding g = None \<and> play g = None) \<and>
      (play g \<noteq> None \<longrightarrow> allBid g) \<and>
      (bidding g \<noteq> None \<longrightarrow> hands g \<noteq> None) \<and>
      (hands g \<noteq> None \<longrightarrow> cardCount g = 52))"


text \<open>
  Bob, Carol and Dave join Alice's lobby at the seats 1, 2 and 3, and the game is
  started: the draw 3 makes Dave the dealer, the draws of the shuffle leave the deck
  as it was built.
\<close>

definition exampleSeated :: Game where
  "exampleSeated =
     snd (joinGame (snd (joinGame (snd (joinGame exampleLobby
       ''bob'' ''Bob'' ''/bob.png'' (Some 1) (UserCoins 1000)))
       ''carol'' ''Carol'' ''/carol.png'' (Some 2) (UserCoins 1000)))
       ''dave'' ''Dave'' ''/dave.png'' (Some 3) (UserCoins 1000))"

definition exampleStarted :: Game where
  "exampleStarted = snd (startGame exampleSeated True 3 (\<lambda>i. i))"

text \<open>
  The last trick again, in two games: one that was created with 100 and -100 as its
  point limits, and one in which Alice has bid 13 and her partner Carol blind nil.
\<close>

definition exampleShortGame :: Game where
  "exampleShortGame = exampleLastTrick\<lparr>maxPoints := 100, minPoints := - 100\<rparr>"

definition exampleBlindNil :: Game where
  "exampleBlindNil =
     exampleLastTrick\<lparr>
       bidding := Some \<lparr> currentPlayer = ''alice'', currentBidderIndex = 3,
                         bids = [Some 13, Some 1, Some (- 1), Some 1] \<rparr>\<rparr>"

definition run :: "Suit \<Rightarrow> Rank list \<Rightarrow> Card list" where
  "run s rs = map (mkCard s) rs"

text \<open>
  The game of Alice, Bob, Carol and Dave, played from its creation on. The shuffle
  left the deck as it was built, so the deal from Dave's left gives every seat each
  fourth card of the deck.
\<close>

definition exampleDeal :: "Card list list" where
  "exampleDeal =
     [run Spades [Two, Six, Ten, Ace] @ run Hearts [Five, Nine, King] @
      run Diamonds [Four, Eight, Queen] @ run Clubs [Three, Seven, Jack],
      run Spades [Three, Seven, Jack] @ run Hearts [Two, Six, Ten, Ace] @
      run Diamonds [Five, Nine, King] @ run Clubs [Four, Eight, Queen],
      run Spades [Four, Eight, Queen] @ run Hearts [Three, Seven, Jack] @
      run Diamonds [Two, Six, Ten, Ace] @ run Clubs [Five, Nine, King],
      run Spades [Five, Nine, King] @ run Hearts [Four, Eight, Queen] @
      run Diamonds [Three, Seven, Jack] @ run Clubs [Two, Six, Ten, Ace]]"

text \<open>
  Alice, Carol and Dave bid 1 and Bob bids nil. The game after the four bids, Alice to
  lead.
\<close>

definition exampleBidsDone :: Game where
  "exampleBidsDone =
     exampleSeated\<lparr>status := BIDDING, dealerIndex := Some 3, hands := Some exampleDeal,
       bidding := Some \<lparr> currentPlayer = ''alice'', currentBidderIndex = 3,
                         bids = [Some 1, Some 0, Some 1, Some 1] \<rparr>,
       play := Some \<lparr> playCurrentPlayer = ''alice'', currentPlayerIndex = 0,
                      currentTrick = [], tricks = [], trickNumber = 0 \<rparr>\<rparr>"

text \<open>
  Every player plays the first card of the hand when on turn. \<open>roundPlays k l\<close> are
  the four requests of the trick number \<open>k\<close> led by seat \<open>l\<close>, \<open>roundOf k l w\<close> is
  that trick as the server stores it with the winner \<open>w\<close>, and \<open>afterTrick k l\<close> is
  the game after \<open>k\<close> tricks with seat \<open>l\<close> on turn.
\<close>

definition exampleNames :: "string list" where
  "exampleNames = [''alice'', ''bob'', ''carol'', ''dave'']"

definition roundPlays :: "nat \<Rightarrow> nat \<Rightarrow> (string \<times> Card) list" where
  "roundPlays k l =
     map (\<lambda>j. (exampleNames ! ((l + j) mod 4), exampleDeal ! ((l + j) mod 4) ! k))
         [0, 1, 2, 3]"

definition roundOf :: "nat \<Rightarrow> nat \<Rightarrow> nat \<Rightarrow> Trick" where
  "roundOf k l w =
     \<lparr> cards = map (\<lambda>j. (exampleDeal ! ((l + j) mod 4) ! k)
                            \<lparr>playerIndex := Some ((l + j) mod 4)\<rparr>) [0, 1, 2, 3],
       winnerIndex = w \<rparr>"

definition exampleRounds :: "Trick list" where
  "exampleRounds =
     [roundOf 0 0 3, roundOf 1 0 3, roundOf 2 0 3, roundOf 3 0 0, roundOf 4 1 3,
      roundOf 5 0 3, roundOf 6 0 1, roundOf 7 2 3, roundOf 8 0 3, roundOf 9 0 2,
      roundOf 10 3 3, roundOf 11 0 3, roundOf 12 0 3]"

definition afterTrick :: "nat \<Rightarrow> nat \<Rightarrow> Game" where
  "afterTrick k l =
     exampleBidsDone\<lparr>hands := Some (map (drop k) exampleDeal),
       play := Some \<lparr> playCurrentPlayer = ''alice'', currentPlayerIndex = l,
                      currentTrick = [], tricks = take k exampleRounds,
                      trickNumber = k \<rparr>\<rparr>"

definition playAll :: "Game \<Rightarrow> (string \<times> Card) list \<Rightarrow> Game" where
  "playAll g plays = foldl (\<lambda>g p. snd (playCard g (fst p) (snd p))) g plays"


text \<open>
  The first trick of that hand once Alice has led the two of spades, and the started
  game once Bob has left his seat.
\<close>

definition exampleSpadeLed :: Game where
  "exampleSpadeLed = snd (playCard exampleBidsDone ''alice'' (mkCard Spades Two))"





section \<open>Properties\<close>

subsection \<open>Trick resolution\<close>

lemma trickStep_cases: "trickStep w c = w \<or> trickStep w c = c"
  by (simp add: trickStep_def)

lemma foldl_trickStep_mem: "foldl trickStep w cs \<in> insert w (set cs)"
proof (induction cs arbitrary: w)
  case Nil
  show ?case by simp
next
  case (Cons c cs)
  have "foldl trickStep (trickStep w c) cs \<in> insert (trickStep w c) (set cs)"
    by (rule Cons.IH)
  moreover have "trickStep w c = w \<or> trickStep w c = c"
    by (rule trickStep_cases)
  ultimately show ?case by auto
qed

lemma foldl_trickStep_spade:
  "suit w = Spades \<Longrightarrow>
   suit (foldl trickStep w cs) = Spades \<and>
   getCardValue (rank w) \<le> getCardValue (rank (foldl trickStep w cs)) \<and>
   (\<forall>c \<in> set cs. suit c = Spades \<longrightarrow>
      getCardValue (rank c) \<le> getCardValue (rank (foldl trickStep w cs)))"
proof (induction cs arbitrary: w)
  case Nil
  then show ?case by simp
next
  case (Cons c cs)
  let ?w' = "trickStep w c"
  have s: "suit ?w' = Spades" using Cons.prems by (simp add: trickStep_def)
  have ge: "getCardValue (rank w) \<le> getCardValue (rank ?w')"
    using Cons.prems by (simp add: trickStep_def)
  have gec: "suit c = Spades \<Longrightarrow> getCardValue (rank c) \<le> getCardValue (rank ?w')"
    using Cons.prems by (simp add: trickStep_def)
  from Cons.IH [OF s] ge gec show ?case
    by (auto intro: order_trans)
qed

lemma foldl_trickStep_plain:
  "suit w \<noteq> Spades \<Longrightarrow> \<forall>c \<in> set cs. suit c \<noteq> Spades \<Longrightarrow>
   suit (foldl trickStep w cs) = suit w \<and>
   getCardValue (rank w) \<le> getCardValue (rank (foldl trickStep w cs)) \<and>
   (\<forall>c \<in> set cs. suit c = suit w \<longrightarrow>
      getCardValue (rank c) \<le> getCardValue (rank (foldl trickStep w cs)))"
proof (induction cs arbitrary: w)
  case Nil
  then show ?case by simp
next
  case (Cons c cs)
  let ?w' = "trickStep w c"
  have s: "suit ?w' = suit w" using Cons.prems by (simp add: trickStep_def)
  have ge: "getCardValue (rank w) \<le> getCardValue (rank ?w')"
    using Cons.prems by (simp add: trickStep_def)
  have gec: "suit c = suit w \<Longrightarrow> getCardValue (rank c) \<le> getCardValue (rank ?w')"
    using Cons.prems by (simp add: trickStep_def)
  have ns: "suit ?w' \<noteq> Spades" using s Cons.prems by simp
  have rest: "\<forall>c \<in> set cs. suit c \<noteq> Spades" using Cons.prems by simp
  from Cons.IH [OF ns rest] s ge gec show ?case
    by (auto intro: order_trans)
qed

lemma foldl_trickStep_trump:
  "suit w \<noteq> Spades \<Longrightarrow> \<exists>c \<in> set cs. suit c = Spades \<Longrightarrow>
   suit (foldl trickStep w cs) = Spades \<and>
   (\<forall>c \<in> set cs. suit c = Spades \<longrightarrow>
      getCardValue (rank c) \<le> getCardValue (rank (foldl trickStep w cs)))"
proof (induction cs arbitrary: w)
  case Nil
  then show ?case by simp
next
  case (Cons c cs)
  show ?case
  proof (cases "suit c = Spades")
    case True
    then have step: "trickStep w c = c" using Cons.prems by (simp add: trickStep_def)
    from foldl_trickStep_spade [OF True, of cs] step show ?thesis by auto
  next
    case False
    then have ns: "suit (trickStep w c) \<noteq> Spades"
      using Cons.prems by (simp add: trickStep_def)
    from False Cons.prems have ex: "\<exists>c \<in> set cs. suit c = Spades" by auto
    from Cons.IH [OF ns ex] False show ?thesis by auto
  qed
qed

lemma getCardValue_inj: "getCardValue r = getCardValue r' \<Longrightarrow> r = r'"
  by (cases r; cases r'; simp)


lemma winningCardOf_mem: "trick \<noteq> [] \<Longrightarrow> winningCardOf trick \<in> set trick"
  using foldl_trickStep_mem [of "hd trick" trick]
  by (auto simp: winningCardOf_def)

lemma winningCardOf_spade:
  assumes "\<exists>c \<in> set trick. suit c = Spades"
  shows "suit (winningCardOf trick) = Spades \<and>
         (\<forall>c \<in> set trick. suit c = Spades \<longrightarrow>
            getCardValue (rank c) \<le> getCardValue (rank (winningCardOf trick)))"
proof (cases "suit (hd trick) = Spades")
  case True
  from foldl_trickStep_spade [OF True, of trick] show ?thesis
    by (simp add: winningCardOf_def)
next
  case False
  from foldl_trickStep_trump [OF False assms] show ?thesis
    by (simp add: winningCardOf_def)
qed

lemma winningCardOf_led:
  assumes "trick \<noteq> []" and "\<forall>c \<in> set trick. suit c \<noteq> Spades"
  shows "suit (winningCardOf trick) = suit (hd trick) \<and>
         (\<forall>c \<in> set trick. suit c = suit (hd trick) \<longrightarrow>
            getCardValue (rank c) \<le> getCardValue (rank (winningCardOf trick)))"
proof -
  from assms have "suit (hd trick) \<noteq> Spades" by (cases trick) auto
  from foldl_trickStep_plain [OF this assms(2)] show ?thesis
    by (simp add: winningCardOf_def)
qed

lemma distinct_cards_strict:
  assumes d: "distinct (map (\<lambda>c. (suit c, rank c)) trick)"
    and c: "c \<in> set trick" and w: "w \<in> set trick" and ne: "c \<noteq> w"
    and s: "suit c = suit w"
    and le: "getCardValue (rank c) \<le> getCardValue (rank w)"
  shows "getCardValue (rank c) < getCardValue (rank w)"
proof -
  from d have "inj_on (\<lambda>c. (suit c, rank c)) (set trick)"
    by (simp add: distinct_map)
  with c w ne have "(suit c, rank c) \<noteq> (suit w, rank w)"
    by (auto dest: inj_onD)
  with s have "rank c \<noteq> rank w" by simp
  then have "getCardValue (rank c) \<noteq> getCardValue (rank w)"
    using getCardValue_inj by blast
  with le show ?thesis by simp
qed

lemma trick_winner_general:
  assumes len: "length trick = 4"
    and d: "distinct (map (\<lambda>c. (suit c, rank c)) trick)"
  shows "\<exists>w \<in> set trick.
           determineTrickWinner trick = Inr (seatOf w) \<and>
           (if list_ex (\<lambda>c. suit c = Spades) trick
            then suit w = Spades \<and>
                 (\<forall>c \<in> set trick. suit c = Spades \<and> c \<noteq> w \<longrightarrow>
                    getCardValue (rank c) < getCardValue (rank w))
            else suit w = suit (hd trick) \<and>
                 (\<forall>c \<in> set trick. suit c = suit (hd trick) \<and> c \<noteq> w \<longrightarrow>
                    getCardValue (rank c) < getCardValue (rank w)))"
proof -
  from len have ne: "trick \<noteq> []" by auto
  let ?w = "winningCardOf trick"
  have mem: "?w \<in> set trick" by (rule winningCardOf_mem [OF ne])
  have win: "determineTrickWinner trick = Inr (seatOf ?w)"
    using ne by (simp add: determineTrickWinner_def seatOf_def)
  show ?thesis
  proof (cases "list_ex (\<lambda>c. suit c = Spades) trick")
    case True
    then have ex: "\<exists>c \<in> set trick. suit c = Spades" by (simp add: list_ex_iff)
    from winningCardOf_spade [OF ex]
    have sw: "suit ?w = Spades"
      and le: "\<And>c. c \<in> set trick \<Longrightarrow> suit c = Spades \<Longrightarrow>
                 getCardValue (rank c) \<le> getCardValue (rank ?w)"
      by auto
    have "\<forall>c \<in> set trick. suit c = Spades \<and> c \<noteq> ?w \<longrightarrow>
            getCardValue (rank c) < getCardValue (rank ?w)"
      using distinct_cards_strict [OF d _ mem] sw le by auto
    with True sw win mem show ?thesis by auto
  next
    case False
    then have no: "\<forall>c \<in> set trick. suit c \<noteq> Spades" by (simp add: list_ex_iff)
    from winningCardOf_led [OF ne no]
    have sw: "suit ?w = suit (hd trick)"
      and le: "\<And>c. c \<in> set trick \<Longrightarrow> suit c = suit (hd trick) \<Longrightarrow>
                 getCardValue (rank c) \<le> getCardValue (rank ?w)"
      by auto
    have "\<forall>c \<in> set trick. suit c = suit (hd trick) \<and> c \<noteq> ?w \<longrightarrow>
            getCardValue (rank c) < getCardValue (rank ?w)"
      using distinct_cards_strict [OF d _ mem] sw le by auto
    with False sw win mem show ?thesis by auto
  qed
qed

text \<open>
  Claim C5. For every trick of four cards, no two of them the same card, the winner
  that \<open>determineTrickWinner\<close> returns is the seat of a card \<open>w\<close> of the trick such
  that, when a spade was played, \<open>w\<close> is a spade and every other spade of the trick
  has a lower value, and, when no spade was played, \<open>w\<close> has the suit led and every
  other card of the suit led has a lower value (values 2 up to 14 for the ace). In
  the trick of the four of clubs the king of spades wins (seat 2), in the trick of the
  ten of diamonds the jack of diamonds wins (seat 1).
\<close>

theorem determineTrickWinner_highest_spade_else_led:
  "(length trick = 4 \<and> distinct (map (\<lambda>c. (suit c, rank c)) trick) \<longrightarrow>
      (\<exists>w \<in> set trick.
         determineTrickWinner trick = Inr (seatOf w) \<and>
         (if list_ex (\<lambda>c. suit c = Spades) trick
          then suit w = Spades \<and>
               (\<forall>c \<in> set trick. suit c = Spades \<and> c \<noteq> w \<longrightarrow>
                  getCardValue (rank c) < getCardValue (rank w))
          else suit w = suit (hd trick) \<and>
               (\<forall>c \<in> set trick. suit c = suit (hd trick) \<and> c \<noteq> w \<longrightarrow>
                  getCardValue (rank c) < getCardValue (rank w))))) \<and>
   determineTrickWinner exampleClubTrick = Inr 2 \<and>
   determineTrickWinner exampleDiamondTrick = Inr 1"
proof (intro conjI impI)
  assume "length trick = 4 \<and> distinct (map (\<lambda>c. (suit c, rank c)) trick)"
  then show "\<exists>w \<in> set trick.
         determineTrickWinner trick = Inr (seatOf w) \<and>
         (if list_ex (\<lambda>c. suit c = Spades) trick
          then suit w = Spades \<and>
               (\<forall>c \<in> set trick. suit c = Spades \<and> c \<noteq> w \<longrightarrow>
                  getCardValue (rank c) < getCardValue (rank w))
          else suit w = suit (hd trick) \<and>
               (\<forall>c \<in> set trick. suit c = suit (hd trick) \<and> c \<noteq> w \<longrightarrow>
                  getCardValue (rank c) < getCardValue (rank w)))"
    using trick_winner_general [of trick] by blast
next
  show "determineTrickWinner exampleClubTrick = Inr 2"
    by (simp add: determineTrickWinner_def winningCardOf_def trickStep_def
        exampleClubTrick_def)
next
  show "determineTrickWinner exampleDiamondTrick = Inr 1"
    by (simp add: determineTrickWinner_def winningCardOf_def trickStep_def
        exampleDiamondTrick_def)
qed

theorem determineTrickWinner_highest_spade_else_led_witness:
  "length exampleClubTrick = 4 \<and>
   distinct (map (\<lambda>c. (suit c, rank c)) exampleClubTrick) \<and>
   (\<exists>w \<in> set exampleClubTrick.
      determineTrickWinner exampleClubTrick = Inr (seatOf w) \<and> suit w = Spades)"
proof -
  have h: "length exampleClubTrick = 4 \<and>
           distinct (map (\<lambda>c. (suit c, rank c)) exampleClubTrick)"
    by (simp add: exampleClubTrick_def)
  have sp: "list_ex (\<lambda>c. suit c = Spades) exampleClubTrick"
    by (simp add: exampleClubTrick_def)
  from determineTrickWinner_highest_spade_else_led [of exampleClubTrick] h sp
  have "\<exists>w \<in> set exampleClubTrick.
          determineTrickWinner exampleClubTrick = Inr (seatOf w) \<and> suit w = Spades"
    by auto
  with h show ?thesis by simp
qed

subsection \<open>Seating\<close>

lemma seatedIds_append: "seatedIds (xs @ ys) = seatedIds xs @ seatedIds ys"
  by (simp add: seatedIds_def)

lemma list_ex_isUser_iff: "list_ex (isUser u) ps = (u \<in> set (seatedIds ps))"
  by (induction ps) (auto simp: seatedIds_def isUser_def split: option.splits)

lemma seatedIds_update_empty:
  assumes "i < length ps" and "ps ! i = None"
  shows "seatedIds (ps[i := Some q]) =
         seatedIds (take i ps) @ [player_id q] @ seatedIds (drop (Suc i) ps)"
    and "seatedIds ps = seatedIds (take i ps) @ seatedIds (drop (Suc i) ps)"
proof -
  have "ps[i := Some q] = take i ps @ Some q # drop (Suc i) ps"
    using assms(1) by (rule upd_conv_take_nth_drop)
  then show "seatedIds (ps[i := Some q]) =
         seatedIds (take i ps) @ [player_id q] @ seatedIds (drop (Suc i) ps)"
    by (simp add: seatedIds_def)
  have "ps = take i ps @ ps ! i # drop (Suc i) ps"
    using assms(1) by (rule id_take_nth_drop)
  then have "seatedIds ps = seatedIds (take i ps @ None # drop (Suc i) ps)"
    using assms(2) by simp
  then show "seatedIds ps = seatedIds (take i ps) @ seatedIds (drop (Suc i) ps)"
    by (simp add: seatedIds_def)
qed

lemma distinct_seat_new:
  assumes d: "distinct (seatedIds ps)" and new: "player_id q \<notin> set (seatedIds ps)"
    and e: "isNullSeat ps i"
  shows "distinct (seatedIds (ps[i := Some q]))"
proof -
  from e have lt: "i < length ps" and n: "ps ! i = None" by (simp_all add: isNullSeat_def)
  from seatedIds_update_empty(1) [OF lt n, of q] seatedIds_update_empty(2) [OF lt n] d new
  show ?thesis by auto
qed

lemma joinGame_distinct:
  assumes "distinct (seatedIds (players g))"
  shows "distinct (seatedIds (players (snd (joinGame g uid uname av seat user))))"
  using assms
  by (auto simp: joinGame_def list_ex_isUser_iff intro!: distinct_seat_new
      split: lookup.splits option.splits)

lemma joinGame_seated:
  "list_ex (isUser uid) (players g) \<Longrightarrow>
   joinGame g uid uname av seat user = (Refused PlayerAlreadyJoined, g)"
  by (simp add: joinGame_def)

lemma spectate_seated:
  "list_ex (isUser uid) (players g) \<Longrightarrow>
   \<exists>e. spectate g (Some uid) uname av = (Refused e, g)"
  by (simp add: spectate_def)

text \<open>
  Claim C10. A join request whose user id already sits at the table is refused
  (\<open>Player already joined\<close>) and the game, its seats included, stays as it was; the
  same user asking to spectate is refused as well, the game unchanged. So a join never
  puts an id on a second seat: when the ids of the seated players are pairwise
  different before a join request, they are after it.
\<close>

theorem seated_user_cannot_join_or_spectate:
  "(list_ex (isUser uid) (players g) \<longrightarrow>
      joinGame g uid uname av seat user = (Refused PlayerAlreadyJoined, g) \<and>
      (\<exists>e. spectate g (Some uid) uname av = (Refused e, g))) \<and>
   (distinct (seatedIds (players g)) \<longrightarrow>
      distinct (seatedIds (players (snd (joinGame g uid uname av seat user)))))"
  using joinGame_seated [of uid g uname av seat user] spectate_seated [of uid g uname av]
    joinGame_distinct [of g uid uname av seat user]
  by blast

theorem seated_user_cannot_join_or_spectate_witness:
  "list_ex (isUser ''alice'') (players exampleLobby) \<and>
   joinGame exampleLobby ''alice'' ''Alice'' ''/alice.png'' (Some 1) (UserCoins 1000) =
     (Refused PlayerAlreadyJoined, exampleLobby) \<and>
   (\<exists>e. spectate exampleLobby (Some ''alice'') ''Alice'' ''/alice.png'' =
      (Refused e, exampleLobby)) \<and>
   distinct (seatedIds (players exampleLobby)) \<and>
   distinct (seatedIds (players (snd
     (joinGame exampleLobby ''alice'' ''Alice'' ''/alice.png'' (Some 1) (UserCoins 1000)))))"
proof -
  have h1: "list_ex (isUser ''alice'') (players exampleLobby)"
    by (simp add: exampleLobby_def createGame_def isUser_def)
  have h2: "distinct (seatedIds (players exampleLobby))"
    by (simp add: exampleLobby_def createGame_def seatedIds_def)
  from seated_user_cannot_join_or_spectate
    [of "''alice''" exampleLobby "''Alice''" "''/alice.png''" "Some 1" "UserCoins 1000"]
    h1 h2
  show ?thesis by blast
qed







subsection \<open>Conservation of the cards\<close>

lemma findIndex_Some: "findIndex P xs = Some i \<Longrightarrow> i < length xs \<and> P (xs ! i)"
proof (induction xs arbitrary: i)
  case Nil
  then show ?case by simp
next
  case (Cons x xs)
  then show ?case by (auto split: if_splits)
qed

lemma length_splice1: "i < length xs \<Longrightarrow> Suc (length (splice1 i xs)) = length xs"
  by (simp add: splice1_def)

lemma sum_lengths_update:
  assumes "i < length hs"
  shows "sum_list (map length (hs[i := h])) + length (hs ! i) =
         sum_list (map length hs) + length h"
proof -
  have "hs = take i hs @ hs ! i # drop (Suc i) hs"
    using assms by (rule id_take_nth_drop)
  then have "sum_list (map length hs) =
      sum_list (map length (take i hs @ hs ! i # drop (Suc i) hs))"
    by simp
  then have a: "sum_list (map length hs) =
      sum_list (map length (take i hs)) + length (hs ! i) +
      sum_list (map length (drop (Suc i) hs))"
    by simp
  have "hs[i := h] = take i hs @ h # drop (Suc i) hs"
    using assms by (rule upd_conv_take_nth_drop)
  then have b: "sum_list (map length (hs[i := h])) =
      sum_list (map length (take i hs)) + length h +
      sum_list (map length (drop (Suc i) hs))"
    by simp
  from a b show ?thesis by simp
qed

lemma sum_lengths_splice:
  assumes "i < length hs" and "k < length (hs ! i)"
  shows "Suc (sum_list (map length (hs[i := splice1 k (hs ! i)]))) = sum_list (map length hs)"
  using sum_lengths_update [OF assms(1), of "splice1 k (hs ! i)"] length_splice1 [OF assms(2)]
  by simp

lemma length_shuffleFrom: "length (shuffleFrom rnd i deck) = length deck"
  by (induction i arbitrary: deck) (simp_all add: swap_def)

lemma length_createDeck: "length createDeck = 52"
  by (simp add: createDeck_def SUITS_def RANKS_def)

lemma dealLoop_total:
  "length hs = 4 \<Longrightarrow> current < 4 \<Longrightarrow>
   length (dealLoop deck current hs) = 4 \<and>
   sum_list (map length (dealLoop deck current hs)) = sum_list (map length hs) + length deck"
proof (induction deck arbitrary: current hs)
  case Nil
  then show ?case by simp
next
  case (Cons c deck)
  let ?hs = "hs[current := hs ! current @ [c]]"
  have l: "length ?hs = 4" using Cons.prems by simp
  have c: "(current + 1) mod 4 < 4" by simp
  have "current < length hs" using Cons.prems by simp
  from sum_lengths_update [OF this, of "hs ! current @ [c]"]
  have s: "sum_list (map length ?hs) = sum_list (map length hs) + 1" by simp
  from Cons.IH [OF l c] s show ?case by simp
qed

lemma dealCards_total: "sum_list (map length (dealCards rnd dealer)) = 52"
proof -
  have "length (shuffle rnd createDeck) = 52"
    by (simp add: shuffle_def length_shuffleFrom length_createDeck)
  moreover have "(dealer + 1) mod 4 < 4" by simp
  ultimately show ?thesis
    using dealLoop_total [of "[[], [], [], []]" "(dealer + 1) mod 4" "shuffle rnd createDeck"]
    by (simp add: dealCards_def)
qed


lemmas handInv_defs = handInv_def cardCount_def cardsInHands_def cardsInPlay_def allBid_def

lemma handInv_roster [simp]:
  "handInv (g\<lparr>players := ps\<rparr>) = handInv g"
  "handInv (g\<lparr>spectators := sp\<rparr>) = handInv g"
  "handInv (g\<lparr>isBotGame := b\<rparr>) = handInv g"
  by (simp_all add: handInv_defs)

lemma handInv_created: "handInv (createGame creatorId creatorName creatorImage maxP minP buy)"
  by (simp add: handInv_defs createGame_def)

lemma handInv_joinGame: "handInv g \<Longrightarrow> handInv (snd (joinGame g p u a s l))"
  by (simp add: joinGame_def split: lookup.splits option.splits)

lemma handInv_inviteBot: "handInv g \<Longrightarrow> handInv (snd (inviteBot g s r u))"
  by (simp add: inviteBot_def Let_def)

lemma handInv_inviteBotMidgame: "handInv g \<Longrightarrow> handInv (snd (inviteBotMidgame g s r u))"
  by (simp add: inviteBotMidgame_def Let_def split: option.splits)

lemma handInv_spectate: "handInv g \<Longrightarrow> handInv (snd (spectate g u n a))"
  by (simp add: spectate_def split: option.splits)

lemma handInv_leave: "handInv g \<Longrightarrow> handInv (snd (leave g u))"
  by (simp add: leave_def Let_def split: option.splits)

lemma handInv_leaveGame: "handInv g \<Longrightarrow> handInv (snd (leaveGame g u a))"
  by (simp add: leaveGame_def split: option.splits)

lemma handInv_removeBot: "handInv g \<Longrightarrow> handInv (snd (removeBot g s r))"
  by (simp add: removeBot_def)

lemma handInv_removeBotMidgame: "handInv g \<Longrightarrow> handInv (snd (removeBotMidgame g s r))"
  by (simp add: removeBotMidgame_def Let_def split: option.splits)

lemma handInv_startGame:
  assumes "handInv g"
  shows "handInv (snd (startGame g debitOk r rnd))"
proof (cases "status g = WAITING")
  case False
  with assms show ?thesis by (simp add: startGame_def)
next
  case True
  with assms have e: "hands g = None" "bidding g = None" "play g = None"
    by (simp_all add: handInv_def)
  show ?thesis
    using True e dealCards_total [of rnd]
    by (simp add: startGame_def Let_def handInv_defs split: option.splits)
qed

lemma handInv_makeBid:
  assumes inv: "handInv g" and mb: "makeBid g userId bid = Some (rep, g')"
  shows "handInv g'"
proof (cases "bidding g")
  case None
  with mb inv show ?thesis by (simp add: makeBid_def)
next
  case (Some bd)
  with inv have h: "hands g \<noteq> None" by (simp add: handInv_def)
  show ?thesis
  proof (cases "findIndex (isUser userId) (players g)")
    case None
    with Some mb inv show ?thesis by (simp add: makeBid_def)
  next
    case idx: (Some idx)
    show ?thesis
    proof (cases "idx \<noteq> currentBidderIndex bd \<or> \<not> isNull (bids bd) idx")
      case True
      with Some idx mb have "g' = g" by (auto simp: makeBid_def split: if_splits)
      with inv show ?thesis by simp
    next
      case False
      then have nul: "isNull (bids bd) idx" by simp
      have noplay: "play g = None"
      proof (rule ccontr)
        assume "play g \<noteq> None"
        with inv Some have "list_all (\<lambda>b. b \<noteq> None) (bids bd)"
          by (simp add: handInv_def allBid_def)
        then have "\<forall>b \<in> set (bids bd). b \<noteq> None" by (simp add: list_all_iff)
        moreover from nul have lt: "idx < length (bids bd)" and n: "bids bd ! idx = None"
          by (simp_all add: isNull_def)
        from lt have "bids bd ! idx \<in> set (bids bd)" by (rule nth_mem)
        ultimately show False using n by metis
      qed
      from inv h noplay have cnt: "cardsInHands g = 52"
        by (simp add: handInv_defs)
      from inv h have nw: "status g \<noteq> WAITING" by (auto simp: handInv_def)
      from mb Some idx False nw h noplay cnt show ?thesis
        by (auto simp: makeBid_def Let_def handInv_defs split: option.splits if_splits)
    qed
  qed
qed

lemma determineTrickWinner_nonempty: "trick \<noteq> [] \<Longrightarrow> \<exists>w. determineTrickWinner trick = Inr w"
  by (simp add: determineTrickWinner_def)

lemma gameOverCheck_keeps:
  "hands (snd (gameOverCheck g evs)) = hands g \<and>
   play (snd (gameOverCheck g evs)) = play g \<and>
   bidding (snd (gameOverCheck g evs)) = bidding g \<and>
   status (snd (gameOverCheck g evs)) \<in> {status g, COMPLETED}"
  by (simp add: gameOverCheck_def Let_def)

lemma completeHand_keeps:
  "hands (snd (completeHand g evs)) = hands g \<and>
   play (snd (completeHand g evs)) = play g \<and>
   bidding (snd (completeHand g evs)) = bidding g \<and>
   status (snd (completeHand g evs)) \<in> {status g, COMPLETED}"
  by (auto simp: completeHand_def gameOverCheck_def Let_def split: option.splits)

lemma handInv_cong:
  assumes "handInv g" "hands g' = hands g" "play g' = play g" "bidding g' = bidding g"
    "status g' \<in> {status g, COMPLETED}"
  shows "handInv g'"
proof -
  from assms(2-4) have "cardCount g' = cardCount g" "allBid g' = allBid g"
    by (simp_all add: cardCount_def cardsInHands_def cardsInPlay_def allBid_def)
  with assms show ?thesis by (auto simp: handInv_def)
qed

lemma handInv_resolveTrick:
  assumes inv: "handInv (g\<lparr>play := Some (pl\<lparr>currentTrick := trick\<rparr>)\<rparr>)"
    and four: "length trick = 4"
  shows "handInv (snd (resolveTrick g pl trick))"
proof -
  from four have "trick \<noteq> []" by auto
  then obtain w where w: "determineTrickWinner trick = Inr w"
    using determineTrickWinner_nonempty by blast
  let ?t = "\<lparr> cards = trick, winnerIndex = w \<rparr>"
  let ?pl1 = "pl\<lparr>tricks := tricks pl @ [?t], currentTrick := [],
                  trickNumber := trickNumber pl + 1, currentPlayerIndex := w\<rparr>"
  have inv1: "handInv (g\<lparr>play := Some ?pl1\<rparr>)"
    using inv four by (auto simp: handInv_defs)
  show ?thesis
  proof (cases "trickNumber pl + 1 = 13")
    case True
    have "handInv (snd (completeHand (g\<lparr>play := Some ?pl1\<rparr>)
             [EvTrickComplete ?t (trickNumber ?pl1)]))"
      using completeHand_keeps [of "g\<lparr>play := Some ?pl1\<rparr>"]
      by (intro handInv_cong [OF inv1]) auto
    with w True show ?thesis by (simp add: resolveTrick_def Let_def)
  next
    case False
    have "handInv (g\<lparr>play := Some (?pl1\<lparr>currentPlayerIndex := (currentPlayerIndex ?pl1 + 1) mod 4\<rparr>)\<rparr>)"
      using inv1 by (auto simp: handInv_defs)
    with w False show ?thesis by (simp add: resolveTrick_def Let_def)
  qed
qed

lemma handInv_playCard:
  assumes inv: "handInv g"
  shows "handInv (snd (playCard g userId c))"
proof (cases "play g")
  case None
  with inv show ?thesis by (simp add: playCard_def)
next
  case pl: (Some pl)
  show ?thesis
  proof (cases "hands g")
    case None
    with pl inv show ?thesis by (simp add: playCard_def)
  next
    case hs: (Some hs)
    show ?thesis
    proof (cases "bidding g")
      case None
      with pl hs inv show ?thesis by (simp add: playCard_def)
    next
      case bd: (Some bd)
      show ?thesis
      proof (cases "findIndex (isUser userId) (players g)")
        case None
        with pl hs bd inv show ?thesis by (simp add: playCard_def)
      next
        case idx: (Some idx)
        show ?thesis
        proof (cases "idx \<noteq> currentPlayerIndex pl \<or> idx \<ge> length hs")
          case True
          with pl hs bd idx inv show ?thesis by (auto simp: playCard_def)
        next
          case ok: False
          then have lt: "idx < length hs" by simp
          show ?thesis
          proof (cases "findIndex (\<lambda>h. suit h = suit c \<and> rank h = rank c) (hs ! idx)")
            case None
            with pl hs bd idx ok inv show ?thesis by (auto simp: playCard_def)
          next
            case ci: (Some cardIndex)
            then have cl: "cardIndex < length (hs ! idx)"
              using findIndex_Some by blast
            let ?hs' = "hs[idx := splice1 cardIndex (hs ! idx)]"
            let ?g1 = "g\<lparr>hands := Some ?hs'\<rparr>"
            let ?trick = "currentTrick pl @ [c\<lparr>playerIndex := Some idx\<rparr>]"
            from sum_lengths_splice [OF lt cl]
            have s: "Suc (sum_list (map length ?hs')) = sum_list (map length hs)" .
            have inv2: "handInv (?g1\<lparr>play := Some (pl\<lparr>currentTrick := ?trick\<rparr>)\<rparr>)"
              using inv pl hs bd s by (auto simp: handInv_defs)
            show ?thesis
            proof (cases "length ?trick = 4")
              case True
              from handInv_resolveTrick [OF inv2 True] pl hs bd idx ok ci True
              show ?thesis by (simp add: playCard_def Let_def)
            next
              case False
              have "handInv (?g1\<lparr>play := Some (pl\<lparr>currentTrick := ?trick,
                       currentPlayerIndex := (currentPlayerIndex pl + 1) mod 4\<rparr>)\<rparr>)"
                using inv2 by (auto simp: handInv_defs)
              with pl hs bd idx ok ci False show ?thesis
                by (simp add: playCard_def Let_def)
            qed
          qed
        qed
      qed
    qed
  qed
qed

lemma handInv_handle:
  assumes "handInv g" and "handle g rq = Some (rep, g')"
  shows "handInv g'"
proof (cases rq)
  case (ReqJoin p u a s l)
  with assms handInv_joinGame [of g p u a s l] show ?thesis by auto
next
  case (ReqInviteBot s r u)
  with assms handInv_inviteBot [of g s r u] show ?thesis by auto
next
  case (ReqInviteBotMidgame s r u)
  with assms handInv_inviteBotMidgame [of g s r u] show ?thesis by auto
next
  case (ReqSpectate u n a)
  with assms handInv_spectate [of g u n a] show ?thesis by auto
next
  case (ReqLeave u)
  with assms handInv_leave [of g u] show ?thesis by auto
next
  case (ReqLeaveGame u a)
  with assms handInv_leaveGame [of g u a] show ?thesis by auto
next
  case (ReqRemoveBot s r)
  with assms handInv_removeBot [of g s r] show ?thesis by auto
next
  case (ReqRemoveBotMidgame s r)
  with assms handInv_removeBotMidgame [of g s r] show ?thesis by auto
next
  case (ReqStart d r rnd)
  with assms handInv_startGame [of g d r rnd] show ?thesis by auto
next
  case (ReqMakeBid u b)
  with assms handInv_makeBid [of g u b rep g'] show ?thesis by auto
next
  case (ReqPlayCard u c)
  with assms handInv_playCard [of g u c] show ?thesis by auto
qed

lemma reachable_handInv: "reachable g \<Longrightarrow> handInv g"
proof (induction rule: reachable.induct)
  case (created creatorId creatorName creatorImage maxP minP buy)
  show ?case by (rule handInv_created)
next
  case (handled g rq rep g')
  then show ?case using handInv_handle by blast
qed

lemma reachable_exampleSeated: "reachable exampleSeated"
proof -
  have r0: "reachable exampleLobby"
    unfolding exampleLobby_def by (rule reachable.created)
  let ?g1 = "snd (joinGame exampleLobby ''bob'' ''Bob'' ''/bob.png'' (Some 1) (UserCoins 1000))"
  let ?g2 = "snd (joinGame ?g1 ''carol'' ''Carol'' ''/carol.png'' (Some 2) (UserCoins 1000))"
  have r1: "reachable ?g1"
    by (rule reachable.handled [OF r0,
          of "ReqJoin ''bob'' ''Bob'' ''/bob.png'' (Some 1) (UserCoins 1000)"
             "fst (joinGame exampleLobby ''bob'' ''Bob'' ''/bob.png'' (Some 1) (UserCoins 1000))"])
       simp
  have r2: "reachable ?g2"
    by (rule reachable.handled [OF r1,
          of "ReqJoin ''carol'' ''Carol'' ''/carol.png'' (Some 2) (UserCoins 1000)"
             "fst (joinGame ?g1 ''carol'' ''Carol'' ''/carol.png'' (Some 2) (UserCoins 1000))"])
       simp
  show ?thesis
    unfolding exampleSeated_def
    by (rule reachable.handled [OF r2,
          of "ReqJoin ''dave'' ''Dave'' ''/dave.png'' (Some 3) (UserCoins 1000)"
             "fst (joinGame ?g2 ''dave'' ''Dave'' ''/dave.png'' (Some 3) (UserCoins 1000))"])
       simp
qed

lemma reachable_exampleStarted: "reachable exampleStarted"
  unfolding exampleStarted_def
  by (rule reachable.handled [OF reachable_exampleSeated,
        of "ReqStart True 3 (\<lambda>i. i)" "fst (startGame exampleSeated True 3 (\<lambda>i. i))"])
     simp

lemma players_exampleSeated:
  "players exampleSeated =
     [Some \<lparr> player_id = ''alice'', username = ''Alice'', avatar = ''/alice.png'',
              ptype = human, position = None \<rparr>,
      Some \<lparr> player_id = ''bob'', username = ''Bob'', avatar = ''/bob.png'',
              ptype = human, position = Some 1 \<rparr>,
      Some \<lparr> player_id = ''carol'', username = ''Carol'', avatar = ''/carol.png'',
              ptype = human, position = Some 2 \<rparr>,
      Some \<lparr> player_id = ''dave'', username = ''Dave'', avatar = ''/dave.png'',
              ptype = human, position = Some 3 \<rparr>]"
  by (simp add: exampleSeated_def exampleLobby_def createGame_def joinGame_def isUser_def
      isNullSeat_def)

lemma status_exampleSeated: "status exampleSeated = WAITING \<and> dealerIndex exampleSeated = None"
  by (simp add: exampleSeated_def exampleLobby_def createGame_def joinGame_def isUser_def
      isNullSeat_def)

lemma playerIndexes_full: "playerIndexes [Some a, Some b, Some c, Some d] = [0, 1, 2, 3]"
proof -
  have "[0 ..< 4] = [0, 1, 2, 3::nat]" by (simp add: upt_rec)
  then show ?thesis by (simp add: playerIndexes_def)
qed

lemma hands_exampleStarted: "hands exampleStarted = Some (dealCards (\<lambda>i. i) 3)"
  using players_exampleSeated status_exampleSeated
  by (simp add: exampleStarted_def startGame_def Let_def anyBot_def assignDealer_def
      playerIndexes_full seatAt_def)

text \<open>
  Claim C9. In every state that the handlers can leave behind from the creation of
  the game on, once the hands are dealt the cards in the four hands, four times the
  number of completed tricks and the cards of the current trick add up to 52. This
  holds after every request, accepted or refused, up to and after the thirteenth
  trick.
\<close>

theorem cards_conserved:
  assumes "reachable g" and "hands g \<noteq> None"
  shows "cardCount g = 52"
  using reachable_handInv [OF assms(1)] assms(2) by (simp add: handInv_def)


theorem cards_conserved_witness:
  "reachable exampleStarted \<and> hands exampleStarted \<noteq> None \<and> cardCount exampleStarted = 52"
proof -
  have h: "hands exampleStarted \<noteq> None" by (simp add: hands_exampleStarted)
  from cards_conserved [OF reachable_exampleStarted h] h reachable_exampleStarted
  show ?thesis by simp
qed

subsection \<open>Bidding\<close>

lemma nextBidder_terminates_aux:
  "next < 4 \<Longrightarrow> (next + k) mod 4 = idx \<Longrightarrow> \<exists>n. nextBidder bs idx next = Some n"
proof (induction k arbitrary: "next")
  case 0
  then have "next = idx" by simp
  then show ?case by (subst nextBidder.simps) simp
next
  case (Suc k)
  show ?case
  proof (cases "\<not> isNull bs next \<and> next \<noteq> idx")
    case True
    have lt: "(next + 1) mod 4 < 4" by simp
    have "((next + 1) mod 4 + k) mod 4 = (next + 1 + k) mod 4"
      by (rule mod_add_left_eq)
    with Suc.prems(2) have "((next + 1) mod 4 + k) mod 4 = idx" by simp
    from Suc.IH [OF lt this] obtain n where
      "nextBidder bs idx ((next + 1) mod 4) = Some n" by blast
    with True show ?thesis by (subst nextBidder.simps) simp
  next
    case False
    then show ?thesis by (subst nextBidder.simps) auto
  qed
qed

lemma nextBidder_terminates:
  assumes "idx < 4"
  shows "\<exists>n. nextBidder bs idx next = Some n"
proof (cases "\<not> isNull bs next \<and> next \<noteq> idx")
  case True
  have lt: "(next + 1) mod 4 < 4" by simp
  have "(next + 1) mod 4 + (idx + 4 - (next + 1) mod 4) = idx + 4"
    using lt by simp
  then have "((next + 1) mod 4 + (idx + 4 - (next + 1) mod 4)) mod 4 = idx"
    using assms by simp
  from nextBidder_terminates_aux [OF lt this] obtain n where
    "nextBidder bs idx ((next + 1) mod 4) = Some n" by blast
  with True show ?thesis by (subst nextBidder.simps) simp
next
  case False
  then show ?thesis by (subst nextBidder.simps) auto
qed

text \<open>
  The last bid of a hand whose dealer is not seat 0: the bid is stored, the play
  state is created with the seat after the dealer on turn and an empty trick.
\<close>

lemma makeBid_last_bid_starts_play:
  assumes bd: "bidding g = Some bd"
    and idx: "findIndex (isUser userId) (players g) = Some idx"
    and turn: "idx = currentBidderIndex bd" and lt: "idx < 4"
    and nul: "isNull (bids bd) idx"
    and full: "list_all (\<lambda>b. b \<noteq> None) ((bids bd)[idx := Some bid])"
    and dealer: "dealerIndex g = Some d" "d \<noteq> 0"
    and leader: "seatAt (players g) ((d + 1) mod 4) = Some firstPlayer"
  shows "makeBid g userId bid =
           Some (Done [EvBiddingComplete, EvPlayStart ((d + 1) mod 4)],
                 g\<lparr>bidding := Some (bd\<lparr>bids := (bids bd)[idx := Some bid]\<rparr>),
                   play := Some \<lparr> playCurrentPlayer = player_id firstPlayer,
                                  currentPlayerIndex = (d + 1) mod 4,
                                  currentTrick = [], tricks = [], trickNumber = 0 \<rparr>\<rparr>)"
proof -
  from nextBidder_terminates [OF lt] obtain n where
    "nextBidder ((bids bd)[idx := Some bid]) idx ((idx + 1) mod 4) = Some n" by blast
  with assms show ?thesis
    by (simp add: makeBid_def Let_def noDealer_def)
qed

text \<open>With the dealer at seat 0 the same bid is stored and then refused.\<close>

lemma makeBid_last_bid_dealer0:
  assumes bd: "bidding g = Some bd"
    and idx: "findIndex (isUser userId) (players g) = Some idx"
    and turn: "idx = currentBidderIndex bd" and lt: "idx < 4"
    and nul: "isNull (bids bd) idx"
    and full: "list_all (\<lambda>b. b \<noteq> None) ((bids bd)[idx := Some bid])"
    and dealer: "dealerIndex g = Some 0"
  shows "makeBid g userId bid =
           Some (Refused NoDealerAssigned,
                 g\<lparr>bidding := Some (bd\<lparr>bids := (bids bd)[idx := Some bid]\<rparr>)\<rparr>)"
proof -
  from nextBidder_terminates [OF lt] obtain n where
    "nextBidder ((bids bd)[idx := Some bid]) idx ((idx + 1) mod 4) = Some n" by blast
  with assms show ?thesis
    by (simp add: makeBid_def Let_def noDealer_def)
qed

lemma nextBidder_exampleLastBid:
  "nextBidder [Some 4, Some 3, Some 4, Some 2] 0 (Suc 0) = Some 0"
  apply (subst nextBidder.simps, simp add: isNull_def)
  apply (subst nextBidder.simps, simp add: isNull_def)
  apply (subst nextBidder.simps, simp add: isNull_def)
  apply (subst nextBidder.simps, simp add: isNull_def)
  done

lemma nextBidder_exampleTable:
  "nextBidder [Some 6, Some 1, Some 4, Some 1] (Suc (Suc (Suc 0))) 0 = Some 3"
  apply (subst nextBidder.simps, simp add: isNull_def)
  apply (subst nextBidder.simps, simp add: isNull_def)
  apply (subst nextBidder.simps, simp add: isNull_def)
  apply (subst nextBidder.simps, simp add: isNull_def)
  done

lemmas example_defs = exampleLastTrick_def examplePlayStart_def exampleTable_def
  exampleFullTable_def exampleLobby_def createGame_def seated_def exampleTricks_def
  mkCard_def played_def exampleThreePlayed_def suitHand_def RANKS_def exampleHands_def
  exampleLastBid_def

lemmas playCard_defs = playCard_def resolveTrick_def completeHand_def gameOverCheck_def
  calculatePartnersHandScore_def bagPenalty_def scoreBeforePenalty_def nilStep_def
  contract_def teamBid_def teamTricks_def bidOr0_def bidAt_def countTricks_def
  determineTrickWinner_def winningCardOf_def trickStep_def splice1_def isUser_def orZero_def

lemma players_playCard: "players (snd (playCard g userId c)) = players g"
  by (simp add: playCard_def resolveTrick_def completeHand_def gameOverCheck_def Let_def
      split: option.splits sum.splits)

lemma players_makeBid: "makeBid g userId bid = Some (rep, g') \<Longrightarrow> players g' = players g"
  by (auto simp: makeBid_def Let_def split: option.splits if_splits)

lemma players_startGame: "players (snd (startGame g debitOk r rnd)) = players g"
  by (simp add: startGame_def Let_def split: option.splits)

lemma four_seats_handle:
  assumes "length (players g) = 4" and "handle g rq = Some (rep, g')"
  shows "length (players g') = 4"
proof (cases rq)
  case (ReqJoin p u a s l)
  with assms show ?thesis
    by (auto simp: joinGame_def split: lookup.splits option.splits if_splits)
next
  case (ReqInviteBot s r u)
  with assms show ?thesis by (auto simp: inviteBot_def Let_def split: if_splits)
next
  case (ReqInviteBotMidgame s r u)
  with assms show ?thesis
    by (auto simp: inviteBotMidgame_def Let_def split: option.splits if_splits)
next
  case (ReqSpectate u n a)
  with assms show ?thesis by (auto simp: spectate_def split: option.splits if_splits)
next
  case (ReqLeave u)
  with assms show ?thesis by (auto simp: leave_def Let_def split: option.splits)
next
  case (ReqLeaveGame u a)
  with assms show ?thesis by (auto simp: leaveGame_def split: option.splits if_splits)
next
  case (ReqRemoveBot s r)
  with assms show ?thesis by (auto simp: removeBot_def split: if_splits)
next
  case (ReqRemoveBotMidgame s r)
  with assms show ?thesis
    by (auto simp: removeBotMidgame_def Let_def split: option.splits if_splits)
next
  case (ReqStart d r rnd)
  with assms players_startGame [of g d r rnd] show ?thesis by auto
next
  case (ReqMakeBid u b)
  with assms players_makeBid [of g u b rep g'] show ?thesis by auto
next
  case (ReqPlayCard u c)
  with assms players_playCard [of g u c] show ?thesis by auto
qed

lemma reachable_four_seats: "reachable g \<Longrightarrow> length (players g) = 4"
proof (induction rule: reachable.induct)
  case (created creatorId creatorName creatorImage maxP minP buy)
  show ?case by (simp add: createGame_def)
next
  case (handled g rq rep g')
  then show ?case using four_seats_handle by blast
qed

text \<open>In a reachable game the loop of \<open>make_bid\<close> ends: the handler answers.\<close>

lemma makeBid_returns:
  assumes "reachable g"
  shows "\<exists>res. makeBid g userId bid = Some res"
proof (cases "findIndex (isUser userId) (players g)")
  case None
  then show ?thesis by (simp add: makeBid_def split: option.splits)
next
  case (Some idx)
  then have "idx < length (players g)" using findIndex_Some by blast
  with reachable_four_seats [OF assms] have "idx < 4" by simp
  from nextBidder_terminates [OF this] obtain n where
    "nextBidder ((bids (the (bidding g)))[idx := Some bid]) idx ((idx + 1) mod 4) = Some n"
    by blast
  with Some show ?thesis
    by (auto simp: makeBid_def Let_def split: option.splits)
qed

text \<open>
  The examples hang together: Dave's bid starts the play, and three cards later the
  first trick waits for Dave.
\<close>

lemma exampleTable_starts_play:
  "makeBid exampleTable ''dave'' 1 =
     Some (Done [EvBiddingComplete, EvPlayStart 0], examplePlayStart)"
  using nextBidder_exampleTable
  by (simp add: makeBid_def example_defs isUser_def isNull_def noDealer_def seatAt_def)

lemma exampleThreePlayed_reached:
  "snd (playCard (snd (playCard (snd (playCard examplePlayStart
       ''alice'' (mkCard Spades Two))) ''bob'' (mkCard Hearts Two)))
       ''carol'' (mkCard Diamonds Two)) = exampleThreePlayed"
  by (simp add: example_defs playCard_defs Let_def)

text \<open>
  Claim C3, on the code. The dealer is seat 0, so the seat after the dealer bids first
  and Alice at seat 0 bids last. Her bid is the fourth: it is stored and all four bids
  are there, but \<open>!game.dealerIndex\<close> takes the dealer 0 for no dealer, the handler
  answers \<open>Invalid game state: no dealer assigned\<close>, and there is no play state:
  the bidding is complete and the game is never handed to the play.
\<close>

theorem makeBid_dealer_at_seat_0_never_starts_play:
  "dealerIndex exampleLastBid = Some 0 \<and> play exampleLastBid = None \<and>
   makeBid exampleLastBid ''alice'' 4 =
     Some (Refused NoDealerAssigned,
           exampleLastBid\<lparr>bidding :=
             Some \<lparr> currentPlayer = ''bob'', currentBidderIndex = 0,
                    bids = [Some 4, Some 3, Some 4, Some 2] \<rparr>\<rparr>)"
  using nextBidder_exampleLastBid
  by (simp add: makeBid_def example_defs isUser_def isNull_def noDealer_def)

subsection \<open>A hand played from the creation of the game\<close>

text \<open>
  The example game is reached through the handlers alone: the lobby, three joins, the
  start, four bids and the cards played seat by seat.
\<close>

lemma swap_same: "swap k k xs = xs"
  by (simp add: swap_def)

lemma shuffleFrom_identity: "shuffleFrom (\<lambda>i. i) n deck = deck"
  by (induction n arbitrary: deck) (simp_all add: swap_same)

lemma dealCards_identity: "dealCards (\<lambda>i. i) 3 = exampleDeal"
  by (simp add: dealCards_def shuffle_def shuffleFrom_identity createDeck_def SUITS_def
      RANKS_def exampleDeal_def run_def mkCard_def)


lemma exampleSeated_eq:
  "exampleSeated =
     exampleLobby\<lparr>players :=
       [Some \<lparr> player_id = ''alice'', username = ''Alice'', avatar = ''/alice.png'',
                ptype = human, position = None \<rparr>,
        Some \<lparr> player_id = ''bob'', username = ''Bob'', avatar = ''/bob.png'',
                ptype = human, position = Some 1 \<rparr>,
        Some \<lparr> player_id = ''carol'', username = ''Carol'', avatar = ''/carol.png'',
                ptype = human, position = Some 2 \<rparr>,
        Some \<lparr> player_id = ''dave'', username = ''Dave'', avatar = ''/dave.png'',
                ptype = human, position = Some 3 \<rparr>]\<rparr>"
  by (simp add: exampleSeated_def exampleLobby_def createGame_def joinGame_def isUser_def
      isNullSeat_def)

lemma exampleStarted_eq:
  "exampleStarted =
     exampleSeated\<lparr>status := BIDDING, dealerIndex := Some 3, hands := Some exampleDeal,
       bidding := Some \<lparr> currentPlayer = ''alice'', currentBidderIndex = 0,
                         bids = [None, None, None, None] \<rparr>\<rparr>"
  using players_exampleSeated status_exampleSeated
  by (simp add: exampleStarted_def startGame_def Let_def anyBot_def assignDealer_def
      playerIndexes_full seatAt_def dealCards_identity exampleSeated_eq exampleLobby_def
      createGame_def)

lemma nextBidder_free: "isNull bs next \<Longrightarrow> nextBidder bs idx next = Some next"
  by (subst nextBidder.simps) simp

lemma nextBidder_round:
  "nextBidder [Some a, Some b, Some c, Some d] (Suc (Suc (Suc 0))) 0 = Some 3"
  apply (subst nextBidder.simps, simp add: isNull_def)
  apply (subst nextBidder.simps, simp add: isNull_def)
  apply (subst nextBidder.simps, simp add: isNull_def)
  apply (subst nextBidder.simps, simp add: isNull_def)
  done

lemmas bid_defs = makeBid_def isUser_def isNull_def noDealer_def seatAt_def Let_def
  exampleSeated_eq exampleLobby_def createGame_def nextBidder_free

lemma exampleBidsDone_reached:
  "makeBid exampleStarted ''alice'' 1 =
     Some (Done [EvBiddingUpdate 1],
       exampleStarted\<lparr>bidding := Some \<lparr> currentPlayer = ''alice'', currentBidderIndex = 1,
                         bids = [Some 1, None, None, None] \<rparr>\<rparr>)"
  "makeBid (exampleStarted\<lparr>bidding := Some \<lparr> currentPlayer = ''alice'',
        currentBidderIndex = 1, bids = [Some 1, None, None, None] \<rparr>\<rparr>) ''bob'' 0 =
     Some (Done [EvBiddingUpdate 2],
       exampleStarted\<lparr>bidding := Some \<lparr> currentPlayer = ''alice'', currentBidderIndex = 2,
                         bids = [Some 1, Some 0, None, None] \<rparr>\<rparr>)"
  "makeBid (exampleStarted\<lparr>bidding := Some \<lparr> currentPlayer = ''alice'',
        currentBidderIndex = 2, bids = [Some 1, Some 0, None, None] \<rparr>\<rparr>) ''carol'' 1 =
     Some (Done [EvBiddingUpdate 3],
       exampleStarted\<lparr>bidding := Some \<lparr> currentPlayer = ''alice'', currentBidderIndex = 3,
                         bids = [Some 1, Some 0, Some 1, None] \<rparr>\<rparr>)"
  "makeBid (exampleStarted\<lparr>bidding := Some \<lparr> currentPlayer = ''alice'',
        currentBidderIndex = 3, bids = [Some 1, Some 0, Some 1, None] \<rparr>\<rparr>) ''dave'' 1 =
     Some (Done [EvBiddingComplete, EvPlayStart 0], exampleBidsDone)"
  using nextBidder_round
  by (simp_all add: exampleStarted_eq exampleBidsDone_def bid_defs)

lemma reachable_makeBid:
  "reachable g \<Longrightarrow> makeBid g userId bid = Some (rep, g') \<Longrightarrow> reachable g'"
  by (rule reachable.handled [of g "ReqMakeBid userId bid"]) simp_all

lemma reachable_exampleBidsDone: "reachable exampleBidsDone"
  using reachable_exampleStarted exampleBidsDone_reached reachable_makeBid by blast

lemma reachable_playCard: "reachable g \<Longrightarrow> reachable (snd (playCard g userId c))"
  by (rule reachable.handled [of g "ReqPlayCard userId c" "fst (playCard g userId c)"]) simp_all


lemmas round_defs = playAll_def afterTrick_def roundPlays_def roundOf_def exampleRounds_def
  exampleNames_def exampleDeal_def run_def mkCard_def exampleBidsDone_def exampleSeated_eq
  exampleLobby_def createGame_def

lemmas step_defs = playCard_def resolveTrick_def determineTrickWinner_def winningCardOf_def
  trickStep_def splice1_def isUser_def Let_def


















subsection \<open>Inviting a bot\<close>







subsection \<open>Playing a card\<close>

lemma resolveTrick_turn:
  assumes "determineTrickWinner trick = Inr w"
  shows "map_option currentPlayerIndex (play (snd (resolveTrick g pl trick))) =
         Some (if trickNumber pl + 1 = 13 then w else (w + 1) mod 4)"
  using assms
  by (simp add: resolveTrick_def Let_def completeHand_def gameOverCheck_def
      split: option.splits)

text \<open>
  Claim C1, on the code. Dave plays the fourth card of the first trick. Alice's two of
  spades wins it (winner seat 0), and the handler, having put the winner on turn, goes
  on into the branch that advances the turn: seat 1 is on turn for the second trick,
  not the winner.
\<close>

theorem playCard_fourth_card_puts_seat_after_winner_on_turn:
  "fst (playCard exampleThreePlayed ''dave'' (mkCard Clubs Two)) =
     Done [EvTrickComplete
             \<lparr> cards = [played Spades Two 0, played Hearts Two 1,
                        played Diamonds Two 2, played Clubs Two 3],
               winnerIndex = 0 \<rparr> 1,
           EvPlayUpdate 1] \<and>
   map_option currentPlayerIndex
     (play (snd (playCard exampleThreePlayed ''dave'' (mkCard Clubs Two)))) = Some 1"
  by (simp add: example_defs playCard_defs Let_def)

lemma accepted_gameOverCheck: "accepted (gameOverCheck g evs)"
  by (simp add: gameOverCheck_def accepted_def Let_def)

lemma accepted_resolveTrick:
  assumes "trick \<noteq> []" and "bidding g \<noteq> None"
  shows "accepted (resolveTrick g pl trick)"
proof -
  from assms(1) obtain w where w: "determineTrickWinner trick = Inr w"
    by (auto simp: determineTrickWinner_def)
  from assms(2) obtain bd where "bidding g = Some bd" by auto
  with w show ?thesis
    using accepted_gameOverCheck
    by (simp add: resolveTrick_def Let_def completeHand_def calculatePartnersHandScore_def
        accepted_def)
qed

lemma playCard_accepts_card_in_hand:
  assumes "play g = Some pl" and "hands g = Some hs" and "bidding g = Some bd"
    and "findIndex (isUser userId) (players g) = Some idx"
    and "idx = currentPlayerIndex pl" and "idx < length hs"
    and "findIndex (\<lambda>h. suit h = suit c \<and> rank h = rank c) (hs ! idx) = Some k"
  shows "accepted (playCard g userId c) \<and>
         hands (snd (playCard g userId c)) = Some (hs[idx := splice1 k (hs ! idx)])"
proof -
  let ?g1 = "g\<lparr>hands := Some (hs[idx := splice1 k (hs ! idx)])\<rparr>"
  let ?trick = "currentTrick pl @ [c\<lparr>playerIndex := Some idx\<rparr>]"
  have b: "bidding ?g1 \<noteq> None" using assms(3) by simp
  have ne: "?trick \<noteq> []" by simp
  from accepted_resolveTrick [OF ne b, of pl]
  have a: "accepted (resolveTrick ?g1 pl ?trick)" .
  have keep: "hands (snd (resolveTrick ?g1 pl ?trick)) = hands ?g1"
    by (simp add: resolveTrick_def Let_def completeHand_def gameOverCheck_def
        determineTrickWinner_def split: option.splits)
  show ?thesis
  proof (cases "length ?trick = 4")
    case True
    with assms a keep show ?thesis by (simp add: playCard_def Let_def)
  next
    case False
    with assms show ?thesis by (simp add: playCard_def Let_def accepted_def)
  qed
qed

lemma playCard_refused_unchanged:
  "playCard g userId c = (Refused e, g') \<Longrightarrow>
   g' = g \<and> e \<in> {InvalidGameState, PlayerNotFound, NotYourTurn, InvalidHandState, CardNotInHand}"
proof (cases "\<exists>pl hs bd idx k. play g = Some pl \<and> hands g = Some hs \<and> bidding g = Some bd \<and>
      findIndex (isUser userId) (players g) = Some idx \<and> idx = currentPlayerIndex pl \<and>
      idx < length hs \<and>
      findIndex (\<lambda>h. suit h = suit c \<and> rank h = rank c) (hs ! idx) = Some k")
  case True
  then obtain pl hs bd idx k where h: "play g = Some pl" "hands g = Some hs" "bidding g = Some bd"
      "findIndex (isUser userId) (players g) = Some idx" "idx = currentPlayerIndex pl"
      "idx < length hs"
      "findIndex (\<lambda>h. suit h = suit c \<and> rank h = rank c) (hs ! idx) = Some k"
    by blast
  assume r: "playCard g userId c = (Refused e, g')"
  from playCard_accepts_card_in_hand [OF h] have "accepted (playCard g userId c)" by simp
  with r show ?thesis by (simp add: accepted_def)
next
  case False
  assume r: "playCard g userId c = (Refused e, g')"
  with False show ?thesis
    by (auto simp: playCard_def split: option.splits if_splits)
qed

lemma playCard_puts_card_on_trick:
  assumes "play g = Some pl" and "hands g = Some hs" and "bidding g = Some bd"
    and "findIndex (isUser userId) (players g) = Some idx"
    and "idx = currentPlayerIndex pl" and "idx < length hs"
    and "findIndex (\<lambda>h. suit h = suit c \<and> rank h = rank c) (hs ! idx) = Some k"
    and "length (currentTrick pl) \<noteq> 3"
  shows "play (snd (playCard g userId c)) =
           Some (pl\<lparr>currentTrick := currentTrick pl @ [c\<lparr>playerIndex := Some idx\<rparr>],
                    currentPlayerIndex := (currentPlayerIndex pl + 1) mod 4\<rparr>)"
  using assms by (simp add: playCard_def Let_def)

lemma reachable_exampleSpadeLed: "reachable exampleSpadeLed"
  unfolding exampleSpadeLed_def by (rule reachable_playCard [OF reachable_exampleBidsDone])

lemma exampleSpadeLed_eq:
  "exampleSpadeLed =
     exampleBidsDone\<lparr>
       hands := Some (exampleDeal[0 := tl (exampleDeal ! 0)]),
       play := Some \<lparr> playCurrentPlayer = ''alice'', currentPlayerIndex = 1,
                      currentTrick = [played Spades Two 0], tricks = [], trickNumber = 0 \<rparr>\<rparr>"
  by (simp add: exampleSpadeLed_def round_defs step_defs played_def)

text \<open>
  Claim C2, as the code has it. The seat on turn asks to play a card of its hand,
  legal or not. The server's \<open>play_card\<close> knows no illegal card: it accepts every
  card of the hand of the seat on turn, takes it out of the hand and puts it on the
  trick. What it refuses, it refuses as \<open>Invalid game state\<close>,
  \<open>Player not found in game\<close>, \<open>Not your turn\<close>, \<open>Invalid hand state\<close> or
  \<open>Card not in hand\<close>, and then the game is unchanged.
\<close>

theorem playCard_has_no_illegal_card:
  assumes "play g = Some pl" and "hands g = Some hs" and "bidding g = Some bd"
    and "findIndex (isUser userId) (players g) = Some idx"
    and "idx = currentPlayerIndex pl" and "idx < length hs"
    and "findIndex (\<lambda>h. suit h = suit c \<and> rank h = rank c) (hs ! idx) = Some k"
  shows "accepted (playCard g userId c) \<and>
         hands (snd (playCard g userId c)) = Some (hs[idx := splice1 k (hs ! idx)]) \<and>
         (length (currentTrick pl) \<noteq> 3 \<longrightarrow>
            play (snd (playCard g userId c)) =
              Some (pl\<lparr>currentTrick := currentTrick pl @ [c\<lparr>playerIndex := Some idx\<rparr>],
                       currentPlayerIndex := (currentPlayerIndex pl + 1) mod 4\<rparr>)) \<and>
         (\<forall>u' c' e g'. playCard g u' c' = (Refused e, g') \<longrightarrow>
            g' = g \<and> e \<in> {InvalidGameState, PlayerNotFound, NotYourTurn,
                           InvalidHandState, CardNotInHand})"
proof (intro conjI impI allI)
  show "accepted (playCard g userId c)"
    using playCard_accepts_card_in_hand [OF assms] by simp
next
  show "hands (snd (playCard g userId c)) = Some (hs[idx := splice1 k (hs ! idx)])"
    using playCard_accepts_card_in_hand [OF assms] by simp
next
  assume "length (currentTrick pl) \<noteq> 3"
  then show "play (snd (playCard g userId c)) =
              Some (pl\<lparr>currentTrick := currentTrick pl @ [c\<lparr>playerIndex := Some idx\<rparr>],
                       currentPlayerIndex := (currentPlayerIndex pl + 1) mod 4\<rparr>)"
    using playCard_puts_card_on_trick [OF assms] by simp
next
  fix u' c' e g'
  assume "playCard g u' c' = (Refused e, g')"
  then show "g' = g" using playCard_refused_unchanged by blast
next
  fix u' c' e g'
  assume "playCard g u' c' = (Refused e, g')"
  then show "e \<in> {InvalidGameState, PlayerNotFound, NotYourTurn,
                           InvalidHandState, CardNotInHand}"
    using playCard_refused_unchanged by blast
qed

theorem playCard_has_no_illegal_card_witness:
  "reachable exampleSpadeLed \<and>
   play exampleSpadeLed =
     Some \<lparr> playCurrentPlayer = ''alice'', currentPlayerIndex = 1,
            currentTrick = [played Spades Two 0], tricks = [], trickNumber = 0 \<rparr> \<and>
   findIndex (isUser ''bob'') (players exampleSpadeLed) = Some 1 \<and>
   findIndex (\<lambda>h. suit h = Hearts \<and> rank h = Two) (exampleDeal ! 1) = Some 3 \<and>
   accepted (playCard exampleSpadeLed ''bob'' (mkCard Hearts Two)) \<and>
   play (snd (playCard exampleSpadeLed ''bob'' (mkCard Hearts Two))) =
     Some \<lparr> playCurrentPlayer = ''alice'', currentPlayerIndex = 2,
            currentTrick = [played Spades Two 0, played Hearts Two 1],
            tricks = [], trickNumber = 0 \<rparr>"
proof -
  let ?pl = "\<lparr> playCurrentPlayer = ''alice'', currentPlayerIndex = 1,
              currentTrick = [played Spades Two 0], tricks = [], trickNumber = 0 \<rparr>"
  let ?hs = "exampleDeal[0 := tl (exampleDeal ! 0)]"
  let ?bd = "\<lparr> currentPlayer = ''alice'', currentBidderIndex = 3,
              bids = [Some 1, Some 0, Some 1, Some 1] \<rparr>"
  have h1: "play exampleSpadeLed = Some ?pl" by (simp add: exampleSpadeLed_eq)
  have h2: "hands exampleSpadeLed = Some ?hs" by (simp add: exampleSpadeLed_eq)
  have h3: "bidding exampleSpadeLed = Some ?bd"
    by (simp add: exampleSpadeLed_eq exampleBidsDone_def)
  have h4: "findIndex (isUser ''bob'') (players exampleSpadeLed) = Some 1"
    by (simp add: exampleSpadeLed_eq exampleBidsDone_def exampleSeated_eq isUser_def)
  have h5: "1 = currentPlayerIndex ?pl" by simp
  have h6: "1 < length ?hs" by (simp add: exampleDeal_def)
  have bob: "?hs ! 1 = exampleDeal ! 1" by (simp add: exampleDeal_def)
  have k: "findIndex (\<lambda>h. suit h = Hearts \<and> rank h = Two) (exampleDeal ! 1) = Some 3"
    by (simp add: exampleDeal_def run_def mkCard_def)
  have h7: "findIndex (\<lambda>h. suit h = suit (mkCard Hearts Two) \<and> rank h = rank (mkCard Hearts Two))
              (?hs ! 1) = Some 3"
    using k by (simp add: bob mkCard_def)
  have n3: "length (currentTrick ?pl) \<noteq> 3" by simp
  from playCard_has_no_illegal_card [OF h1 h2 h3 h4 h5 h6 h7] n3
  have "accepted (playCard exampleSpadeLed ''bob'' (mkCard Hearts Two))"
    and "play (snd (playCard exampleSpadeLed ''bob'' (mkCard Hearts Two))) =
           Some (?pl\<lparr>currentTrick := currentTrick ?pl @ [(mkCard Hearts Two)\<lparr>playerIndex := Some 1\<rparr>],
                    currentPlayerIndex := (currentPlayerIndex ?pl + 1) mod 4\<rparr>)"
    by blast+
  with h1 h4 k reachable_exampleSpadeLed show ?thesis by (simp add: mkCard_def played_def)
qed

text \<open>
  Against claim C2 as it is written, in the game played from its creation. Alice
  leads the first trick with the two of spades although she holds the five of hearts
  and no trick is complete; Bob follows with the two of hearts although he holds the
  three of spades. The server accepts both cards and the game changes.
\<close>

theorem playCard_accepts_illegal_card_counterexample:
  "reachable exampleBidsDone \<and> hands exampleBidsDone = Some exampleDeal \<and>
   map_option tricks (play exampleBidsDone) = Some [] \<and>
   map_option currentTrick (play exampleBidsDone) = Some [] \<and>
   mkCard Spades Two \<in> set (exampleDeal ! 0) \<and> mkCard Hearts Five \<in> set (exampleDeal ! 0) \<and>
   accepted (playCard exampleBidsDone ''alice'' (mkCard Spades Two)) \<and>
   snd (playCard exampleBidsDone ''alice'' (mkCard Spades Two)) \<noteq> exampleBidsDone \<and>
   reachable exampleSpadeLed \<and>
   hands exampleSpadeLed = Some (exampleDeal[0 := tl (exampleDeal ! 0)]) \<and>
   map_option currentTrick (play exampleSpadeLed) = Some [played Spades Two 0] \<and>
   mkCard Hearts Two \<in> set (exampleDeal ! 1) \<and> mkCard Spades Three \<in> set (exampleDeal ! 1) \<and>
   accepted (playCard exampleSpadeLed ''bob'' (mkCard Hearts Two)) \<and>
   snd (playCard exampleSpadeLed ''bob'' (mkCard Hearts Two)) \<noteq> exampleSpadeLed"
proof -
  have c0: "play (snd (playCard exampleBidsDone ''alice'' (mkCard Spades Two))) \<noteq>
            play exampleBidsDone"
    by (simp add: round_defs step_defs)
  have c1: "play (snd (playCard exampleSpadeLed ''bob'' (mkCard Hearts Two))) \<noteq>
            play exampleSpadeLed"
    by (simp add: exampleSpadeLed_eq) (simp add: round_defs step_defs)
  have a0: "accepted (playCard exampleBidsDone ''alice'' (mkCard Spades Two))"
    by (simp add: round_defs step_defs accepted_def)
  have a1: "accepted (playCard exampleSpadeLed ''bob'' (mkCard Hearts Two))"
    by (simp add: exampleSpadeLed_eq) (simp add: round_defs step_defs accepted_def)
  have p: "hands exampleBidsDone = Some exampleDeal"
    "map_option tricks (play exampleBidsDone) = Some []"
    "map_option currentTrick (play exampleBidsDone) = Some []"
    by (simp_all add: exampleBidsDone_def)
  have m: "mkCard Spades Two \<in> set (exampleDeal ! 0)" "mkCard Hearts Five \<in> set (exampleDeal ! 0)"
    "mkCard Hearts Two \<in> set (exampleDeal ! 1)" "mkCard Spades Three \<in> set (exampleDeal ! 1)"
    by (simp_all add: exampleDeal_def run_def mkCard_def)
  have q: "hands exampleSpadeLed = Some (exampleDeal[0 := tl (exampleDeal ! 0)])"
    "map_option currentTrick (play exampleSpadeLed) = Some [played Spades Two 0]"
    by (simp_all add: exampleSpadeLed_eq)
  from c0 c1 a0 a1 p m q reachable_exampleBidsDone reachable_exampleSpadeLed
  show ?thesis by auto
qed

subsection \<open>Scoring\<close>


lemma completeHand_totals:
  assumes "calculatePartnersHandScore g = Some h"
  shows "team1Bags (snd (completeHand g evs)) = Some (orZero (team1Bags g) + hsTeam1Bags h) \<and>
         team1TotalScore (snd (completeHand g evs)) =
           Some (orZero (team1TotalScore g) + team1Score h)"
  using assms by (simp add: completeHand_def gameOverCheck_def Let_def)
















lemma teamBid_pair: "teamBid bs [i, j] = bidOr0 bs i + bidOr0 bs j"
  by (simp add: teamBid_def)

text \<open>
  Claim C6, on the code. Alice bids 13 and her partner Carol blind nil, the sentinel
  -1. The team bid is the plain sum 13 + (-1) = 12. Alice takes all 13 tricks: the
  contract scores 120 and one bag, the blind nil 200, in all 321 points and 1 bag,
  where a team bid of 13 gives 330 points and no bag.
\<close>

theorem teamBid_counts_blind_nil_as_minus_one:
  "teamBid [Some 13, Some 1, Some (- 1), Some 1] [0, 2] = 12 \<and>
   team1TotalScore (snd (playCard exampleBlindNil ''alice'' (mkCard Spades Ace))) = Some 321 \<and>
   team1Bags (snd (playCard exampleBlindNil ''alice'' (mkCard Spades Ace))) = Some 1"
  by (simp add: exampleBlindNil_def example_defs playCard_defs Let_def)

lemma gameOverCheck_ignores_limits:
  "gameOverCheck (g\<lparr>maxPoints := m, minPoints := n\<rparr>) evs =
     (fst (gameOverCheck g evs), (snd (gameOverCheck g evs))\<lparr>maxPoints := m, minPoints := n\<rparr>)"
  by (simp add: gameOverCheck_def Let_def)

text \<open>
  Claim C7, on the code. The game was created with 100 points to win and -100 to
  lose. After its first hand team 1 has 103 points, past the limit of the game, and
  the game is not over: the check compares with 500 and -150 whatever the game was
  created with.
\<close>

theorem playCard_ignores_configured_thresholds:
  "maxPoints exampleShortGame = 100 \<and>
   team1TotalScore (snd (playCard exampleShortGame ''alice'' (mkCard Spades Ace))) = Some 103 \<and>
   status (snd (playCard exampleShortGame ''alice'' (mkCard Spades Ace))) = BIDDING"
  by (simp add: exampleShortGame_def example_defs playCard_defs Let_def)

end
